theory Spec2Isabelle
  imports Complex_Main "HOL-Library.AList" "HOL-Library.Sublist"
begin

section \<open>JavaScript values\<close>

text \<open>
  The two modules under verification are \<^verbatim>\<open>src/js/cmi5-wrapper.js\<close> (launch, credential
  exchange, session store, lifecycle statements) and \<^verbatim>\<open>src/js/xapi-tracker.js\<close> (statement
  queue and batch delivery).

  Values that travel as JSON are modelled by one datatype. An array carries, besides its
  elements, the named properties that an assignment such as \<^verbatim>\<open>arr.registration = r\<close> creates
  on it; JSON text never carries them. \<^verbatim>\<open>null\<close> and \<^verbatim>\<open>undefined\<close> are both falsy and the
  code under study never tells them apart, so a variable that may hold either is an
  \<open>option\<close> with \<open>None\<close> for both, and \<open>JNull\<close> is a \<^verbatim>\<open>null\<close> inside a JSON document.
\<close>

datatype json =
    JNull
  | JBool bool
  | JNum real
  | JStr string
  | JArr "json list" "(string \<times> json) list"
  | JObj "(string \<times> json) list"

datatype js_error = JsError (err_name: string) (err_message: string)

definition TypeError :: "string \<Rightarrow> js_error" where
  "TypeError m = JsError ''TypeError'' m"

definition Error :: "string \<Rightarrow> js_error" where
  "Error m = JsError ''Error'' m"

text \<open>\<^verbatim>\<open>e.toString()\<close> of an error object.\<close>

definition err_toString :: "js_error \<Rightarrow> string" where
  "err_toString e =
     (if err_message e = [] then err_name e else err_name e @ '': '' @ err_message e)"

text \<open>Truthiness of a string (\<^verbatim>\<open>null\<close> and the empty string are falsy).\<close>

fun truthy_str :: "string option \<Rightarrow> bool" where
  "truthy_str None = False"
| "truthy_str (Some s) = (s \<noteq> [])"

fun truthy :: "json \<Rightarrow> bool" where
  "truthy JNull = False"
| "truthy (JBool b) = b"
| "truthy (JNum n) = (n \<noteq> 0)"
| "truthy (JStr s) = (s \<noteq> [])"
| "truthy (JArr es ps) = True"
| "truthy (JObj fs) = True"

fun truthy_opt :: "json option \<Rightarrow> bool" where
  "truthy_opt None = False"
| "truthy_opt (Some v) = truthy v"

text \<open>\<^verbatim>\<open>s.startsWith(p)\<close> and \<^verbatim>\<open>s.includes(p)\<close>.\<close>

definition startsWith :: "string \<Rightarrow> string \<Rightarrow> bool" where
  "startsWith s p = (take (length p) s = p)"

fun str_includes :: "string \<Rightarrow> string \<Rightarrow> bool" where
  "str_includes [] p = (p = [])"
| "str_includes (c # cs) p = (startsWith (c # cs) p \<or> str_includes cs p)"


section \<open>The tracker: statement queue and batch delivery\<close>

text \<open>
  \<^verbatim>\<open>src/js/xapi-tracker.js\<close>. A statement waiting in \<^verbatim>\<open>statementQueue\<close> has a verb, an
  object, a result and a timestamp (the instant read from the clock, which the source
  renders with \<^verbatim>\<open>toISOString\<close>).
\<close>

record verb =
  verb_id :: string
  verb_display :: "string option"

record queued =
  q_verb :: verb
  q_object :: "json option"
  q_result :: "json option"
  q_timestamp :: nat

datatype verb_arg = VerbName string | VerbObject verb

definition verbMap :: "(string \<times> string) list" where
  "verbMap =
    [(''experienced'', ''http://adlnet.gov/expapi/verbs/experienced''),
     (''exited'', ''http://adlnet.gov/expapi/verbs/exited''),
     (''interacted'', ''http://adlnet.gov/expapi/verbs/interacted''),
     (''played'', ''https://w3id.org/xapi/video/verbs/played''),
     (''paused'', ''https://w3id.org/xapi/video/verbs/paused''),
     (''seeked'', ''https://w3id.org/xapi/video/verbs/seeked''),
     (''answered'', ''http://adlnet.gov/expapi/verbs/answered''),
     (''attempted'', ''http://adlnet.gov/expapi/verbs/attempted''),
     (''suspended'', ''http://adlnet.gov/expapi/verbs/suspended''),
     (''resumed'', ''http://adlnet.gov/expapi/verbs/resumed''),
     (''progressed'', ''http://adlnet.gov/expapi/verbs/progressed'')]"

definition getVerbId :: "string \<Rightarrow> string" where
  "getVerbId v =
     (case map_of verbMap v of
        Some iri \<Rightarrow> iri
      | None \<Rightarrow> ''http://adlnet.gov/expapi/verbs/'' @ v)"

text \<open>
  \<^verbatim>\<open>processBatch\<close> is an \<^verbatim>\<open>async\<close> function: a call runs until its first \<^verbatim>\<open>await\<close> and
  returns a promise; the rest runs later, piece by piece, while other handlers of the page
  run in between. Each call is a task, numbered in the order of the calls, and the promise
  of a call is settled when its task is \<open>Finished\<close>. A task is suspended either at
  \<^verbatim>\<open>await batchPromise\<close> (\<open>Waiting p\<close>, on the promise of task \<open>p\<close>) or at
  \<^verbatim>\<open>await Cmi5.sendStatement(...)\<close> for position \<open>i\<close> of its batch (\<open>Sending batch i\<close>).
\<close>

datatype task = Waiting nat | Sending "queued list" nat | Finished

text \<open>
  The module state of the tracker that delivery uses, the tasks, what the wrapper answers
  to \<^verbatim>\<open>Cmi5.isConnected()\<close> and \<^verbatim>\<open>Cmi5.isTerminated()\<close>, and the statements handed to
  \<^verbatim>\<open>Cmi5.sendStatement\<close> so far (the transport calls of the tracker), oldest first.
\<close>

record tracker =
  statementQueue :: "queued list"
  batchInProgress :: bool
  batchPromise :: "nat option"
  sessionEnded :: bool
  tasks :: "task list"
  cmi5_isConnected :: bool
  cmi5_isTerminated :: bool
  transport_calls :: "queued list"

definition SEND_TO_LRS :: bool where
  "SEND_TO_LRS = True"

definition initial_tracker :: tracker where
  "initial_tracker =
     \<lparr> statementQueue = [], batchInProgress = False, batchPromise = None,
       sessionEnded = False, tasks = [], cmi5_isConnected = False,
       cmi5_isTerminated = False, transport_calls = [] \<rparr>"

text \<open>The tracker's \<^verbatim>\<open>sendStatement(verb, options)\<close> (lines 1438-1469), at clock reading \<open>now\<close>.\<close>

definition tracker_sendStatement ::
  "verb_arg \<Rightarrow> json option \<Rightarrow> json option \<Rightarrow> nat \<Rightarrow> tracker \<Rightarrow> tracker" where
  "tracker_sendStatement v obj res now s =
     (if sessionEnded s then s
      else if cmi5_isTerminated s then s\<lparr> sessionEnded := True, statementQueue := [] \<rparr>
      else
        let statement =
              \<lparr> q_verb = (case v of
                            VerbName n \<Rightarrow> \<lparr> verb_id = getVerbId n, verb_display = Some n \<rparr>
                          | VerbObject vo \<Rightarrow> vo),
                q_object = obj, q_result = res, q_timestamp = now \<rparr>
        in s\<lparr> statementQueue := statementQueue s @ [statement] \<rparr>)"

text \<open>\<^verbatim>\<open>stop()\<close> of the public interface (lines 1898-1902).\<close>

definition stop :: "tracker \<Rightarrow> tracker" where
  "stop s = s\<lparr> sessionEnded := True, statementQueue := [] \<rparr>"

subsection \<open>processBatch, cut at its await points\<close>

text \<open>A \<^verbatim>\<open>return\<close> outside the \<^verbatim>\<open>try\<close> block settles the promise of task \<open>me\<close>.\<close>

definition settle :: "nat \<Rightarrow> tracker \<Rightarrow> tracker" where
  "settle me s = s\<lparr> tasks := (tasks s)[me := Finished] \<rparr>"

text \<open>Leaving the \<^verbatim>\<open>try\<close> block runs \<^verbatim>\<open>finally { batchInProgress = false; }\<close> first.\<close>

definition leave_try :: "nat \<Rightarrow> tracker \<Rightarrow> tracker" where
  "leave_try me s = settle me (s\<lparr> batchInProgress := False \<rparr>)"

text \<open>
  The head of the \<^verbatim>\<open>for\<close> loop (line 1534) at index \<open>i\<close>: either the next statement is
  handed to \<^verbatim>\<open>Cmi5.sendStatement\<close> and the task is suspended, or the loop is over.
\<close>

definition send_from :: "nat \<Rightarrow> queued list \<Rightarrow> nat \<Rightarrow> tracker \<Rightarrow> tracker" where
  "send_from me batch i s =
     (if i < length batch
      then s\<lparr> transport_calls := transport_calls s @ [batch ! i],
              tasks := (tasks s)[me := Sending batch i] \<rparr>
      else leave_try me s)"

text \<open>\<^verbatim>\<open>statementQueue.slice(-100)\<close>.\<close>

definition slice_last :: "nat \<Rightarrow> 'a list \<Rightarrow> 'a list" where
  "slice_last n xs = drop (length xs - n) xs"

text \<open>From \<^verbatim>\<open>batchInProgress = true\<close> (line 1526) to the first \<^verbatim>\<open>await\<close> of the loop.\<close>

definition processBatch_body :: "nat \<Rightarrow> tracker \<Rightarrow> tracker" where
  "processBatch_body me s0 =
     (let s = s0\<lparr> batchInProgress := True \<rparr> in
      if cmi5_isConnected s \<and> \<not> cmi5_isTerminated s then
        send_from me (statementQueue s) 0 (s\<lparr> statementQueue := [] \<rparr>)
      else if cmi5_isTerminated s then
        leave_try me (s\<lparr> sessionEnded := True, statementQueue := [] \<rparr>)
      else if length (statementQueue s) > 100 then
        leave_try me (s\<lparr> statementQueue := slice_last 100 (statementQueue s) \<rparr>)
      else leave_try me s)"

text \<open>After \<^verbatim>\<open>await batchPromise\<close> (line 1523).\<close>

definition processBatch_resumed :: "nat \<Rightarrow> tracker \<Rightarrow> tracker" where
  "processBatch_resumed me s =
     (if statementQueue s = [] \<or> sessionEnded s then settle me s
      else processBatch_body me s)"

text \<open>
  A call \<^verbatim>\<open>batchPromise = processBatch()\<close>, as every caller writes it (lines 198, 1218,
  1704, 1856, 1895): the call runs up to its first \<^verbatim>\<open>await\<close> reading the old
  \<^verbatim>\<open>batchPromise\<close>, and the promise it returns is assigned afterwards.
\<close>

definition processBatch :: "tracker \<Rightarrow> tracker" where
  "processBatch s0 =
     (let me = length (tasks s0);
          s = s0\<lparr> tasks := tasks s0 @ [Finished] \<rparr>;
          s' = (if sessionEnded s then s\<lparr> statementQueue := [] \<rparr>
                else if statementQueue s = [] then s
                else if \<not> SEND_TO_LRS then s\<lparr> statementQueue := [] \<rparr>
                else if batchInProgress s then
                  (case batchPromise s of
                     Some p \<Rightarrow> s\<lparr> tasks := (tasks s)[me := Waiting p] \<rparr>
                   | None \<Rightarrow> processBatch_resumed me s)
                else processBatch_body me s)
      in s'\<lparr> batchPromise := Some me \<rparr>)"

text \<open>What \<^verbatim>\<open>await Cmi5.sendStatement(...)\<close> gives back: a value, or an exception.\<close>

datatype outcome = Returned | Threw js_error

text \<open>\<^verbatim>\<open>e.message || e.toString()\<close> (line 1543).\<close>

definition errorMsg :: "js_error \<Rightarrow> string" where
  "errorMsg e = (if err_message e \<noteq> [] then err_message e else err_toString e)"

definition session_invalidated :: "js_error \<Rightarrow> bool" where
  "session_invalidated e =
     (str_includes (errorMsg e) ''session not found'' \<or> str_includes (errorMsg e) ''401'')"

text \<open>The loop of task \<open>me\<close> after its send at index \<open>i\<close> came back (lines 1541-1564).\<close>

definition processBatch_sent :: "nat \<Rightarrow> queued list \<Rightarrow> nat \<Rightarrow> outcome \<Rightarrow> tracker \<Rightarrow> tracker" where
  "processBatch_sent me batch i r s =
     (case r of
        Returned \<Rightarrow> send_from me batch (i + 1) s
      | Threw e \<Rightarrow>
          if session_invalidated e then
            leave_try me (s\<lparr> sessionEnded := True, statementQueue := [] \<rparr>)
          else if \<not> sessionEnded s then
            leave_try me (s\<lparr> statementQueue := drop i batch @ statementQueue s \<rparr>)
          else leave_try me s)"

subsection \<open>The page as a sequence of events\<close>

text \<open>
  What can happen to the tracker, one handler at a time: a producer submits a statement,
  somebody calls \<^verbatim>\<open>processBatch\<close> (timer, immediate flush, \<^verbatim>\<open>flush()\<close>), a suspended task
  continues because what it awaited has settled, \<^verbatim>\<open>stop()\<close> is called, or the wrapper
  changes what it reports. An event that cannot happen in the current state (a task that
  is not suspended there, a promise not yet settled) leaves the state as it is.
\<close>

datatype event =
    Submit verb_arg "json option" "json option" nat
  | Flush
  | Resume nat
  | Answer nat outcome
  | Stop
  | Cmi5_reports bool bool

definition step :: "tracker \<Rightarrow> event \<Rightarrow> tracker" where
  "step s e =
     (case e of
        Submit v obj res now \<Rightarrow> tracker_sendStatement v obj res now s
      | Flush \<Rightarrow> processBatch s
      | Resume me \<Rightarrow>
          (if me < length (tasks s) then
             (case tasks s ! me of
                Waiting p \<Rightarrow>
                  if p < length (tasks s) \<and> tasks s ! p = Finished
                  then processBatch_resumed me s else s
              | _ \<Rightarrow> s)
           else s)
      | Answer me r \<Rightarrow>
          (if me < length (tasks s) then
             (case tasks s ! me of
                Sending batch i \<Rightarrow> processBatch_sent me batch i r s
              | _ \<Rightarrow> s)
           else s)
      | Stop \<Rightarrow> stop s
      | Cmi5_reports c t \<Rightarrow> s\<lparr> cmi5_isConnected := c, cmi5_isTerminated := t \<rparr>)"

definition run :: "tracker \<Rightarrow> event list \<Rightarrow> tracker" where
  "run s es = foldl step s es"

text \<open>The delivery loops that are in flight: the tasks suspended at a send.\<close>

fun is_sending :: "task \<Rightarrow> bool" where
  "is_sending (Sending batch i) = True"
| "is_sending _ = False"

definition in_flight :: "tracker \<Rightarrow> nat" where
  "in_flight s = length (filter is_sending (tasks s))"

section \<open>The wrapper: launch, credential exchange, session store\<close>

text \<open>
  \<^verbatim>\<open>src/js/cmi5-wrapper.js\<close>. Each \<^verbatim>\<open>async\<close> function of the wrapper is modelled as run to
  its end before the next call of the wrapper starts, the way \<^verbatim>\<open>initialize\<close> and
  \<^verbatim>\<open>markCourseComplete\<close> (\<^verbatim>\<open>src/js/course.js\<close>) await each call. A function takes the module
  state and the world around the page and returns both; a function that can throw returns
  \<open>Inl\<close> of the error. Console output is left out.
\<close>

subsection \<open>Printing numbers\<close>

definition digit_char :: "nat \<Rightarrow> char" where
  "digit_char d = char_of (48 + d)"

fun show_nat :: "nat \<Rightarrow> string" where
  "show_nat n = (if n < 10 then [digit_char n] else show_nat (n div 10) @ [digit_char (n mod 10)])"

declare show_nat.simps [simp del]

definition show_int :: "int \<Rightarrow> string" where
  "show_int i = (if i < 0 then CHR ''-'' # show_nat (nat (- i)) else show_nat (nat i))"

subsection \<open>Properties of JSON values\<close>

text \<open>
  \<^verbatim>\<open>v[k]\<close> for the property names the wrapper reads: a \<^verbatim>\<open>TypeError\<close> on \<^verbatim>\<open>null\<close>,
  \<^verbatim>\<open>undefined\<close> (\<open>None\<close>) on a number, a string or a boolean, and on a missing key.
\<close>

fun get_prop :: "json \<Rightarrow> string \<Rightarrow> js_error + json option" where
  "get_prop JNull k = Inl (TypeError ''Cannot read properties of null'')"
| "get_prop (JObj fs) k = Inr (map_of fs k)"
| "get_prop (JArr es ps) k = Inr (map_of ps k)"
| "get_prop v k = Inr None"

text \<open>
  \<^verbatim>\<open>v[k] = x\<close> in strict mode: a \<^verbatim>\<open>TypeError\<close> on anything but an object or an array; a
  key that exists keeps its place, a new key goes last.
\<close>

fun set_prop :: "json \<Rightarrow> string \<Rightarrow> json \<Rightarrow> js_error + json" where
  "set_prop (JObj fs) k x = Inr (JObj (AList.update k x fs))"
| "set_prop (JArr es ps) k x = Inr (JArr es (AList.update k x ps))"
| "set_prop v k x = Inl (TypeError ''Cannot create property'')"

text \<open>
  \<^verbatim>\<open>JSON.parse(JSON.stringify(v))\<close>: a copy of the value, in which no array has named
  properties.
\<close>

fun json_copy :: "json \<Rightarrow> json" where
  "json_copy (JArr es ps) = JArr (map json_copy es) []"
| "json_copy (JObj fs) = JObj (map (\<lambda>kv. (fst kv, json_copy (snd kv))) fs)"
| "json_copy v = v"

text \<open>A string or \<^verbatim>\<open>null\<close> as a JSON value.\<close>

definition json_of_str :: "string option \<Rightarrow> json" where
  "json_of_str s = (case s of None \<Rightarrow> JNull | Some t \<Rightarrow> JStr t)"

subsection \<open>The world around the page\<close>

text \<open>
  The record that \<^verbatim>\<open>saveSessionData\<close> writes under \<^verbatim>\<open>SESSION_STORAGE_KEY\<close>. Nothing else
  writes that key, so the stored text is always the serialisation of such a record.
\<close>

record session_data =
  d_endpoint :: "string option"
  d_authToken :: "json option"
  d_actor :: "json option"
  d_registration :: "string option"
  d_activityId :: "string option"
  d_sessionId :: "string option"
  d_launchData :: "json option"
  d_contextTemplate :: "json option"
  d_launchMode :: json
  d_masteryScore :: json
  d_moveOn :: json
  d_returnURL :: "json option"
  d_startTime :: "int option"
  d_initialized :: bool
  d_completionSent :: bool
  d_successSent :: bool

text \<open>An xAPI statement as the wrapper builds it.\<close>

record statement =
  st_id :: string
  st_actor :: "json option"
  st_verb :: verb
  st_object :: json
  st_timestamp :: int
  st_context :: json
  st_result :: "json option"

datatype http_method = GET | PUT | POST

text \<open>
  The resource of an LRS request, in place of the path string: the agent profile of the
  learner preferences, the state document \<^verbatim>\<open>LMS.LaunchData\<close>, or a statement by its id.
\<close>

datatype lrs_path =
    AgentsProfile "json option"
  | ActivitiesState "string option" "json option" "string option"
  | Statements string

text \<open>
  A request as \<^verbatim>\<open>fetch\<close> receives it: the credential exchange (a \<^verbatim>\<open>POST\<close> to the fetch
  URL, no body), or a request to the LRS (method, base URL, resource, the
  \<^verbatim>\<open>Authorization\<close> header, the statement in the body).
\<close>

datatype request =
    ExchangeRequest string
  | LrsRequest http_method string lrs_path "json option" "statement option"

text \<open>
  What \<^verbatim>\<open>fetch\<close> gives back: a rejection, or a response; \<open>body_json\<close> is what \<^verbatim>\<open>JSON.parse\<close>
  makes of \<open>body_text\<close>, \<open>None\<close> when it throws.
\<close>

record response =
  status :: nat
  statusText :: string
  body_text :: string
  body_json :: "json option"

datatype fetch_result = Rejected js_error | Response response

definition ok :: "response \<Rightarrow> bool" where
  "ok r = (200 \<le> status r \<and> status r \<le> 299)"

text \<open>
  The world: the session store, the network (the answer that the \<open>n\<close>-th request of the
  tab's life will get, and the requests made so far with their answers, oldest first),
  the random source behind \<^verbatim>\<open>generateUUID\<close> and the clock behind \<^verbatim>\<open>Date\<close>, each with the
  number of readings so far. The session store is taken to work: \<^verbatim>\<open>getItem\<close>, \<^verbatim>\<open>setItem\<close>
  and \<^verbatim>\<open>removeItem\<close> do not throw.
\<close>

record world =
  sessionStorage :: "session_data option"
  network :: "nat \<Rightarrow> fetch_result"
  requests :: "(request \<times> fetch_result) list"
  random :: "nat \<Rightarrow> nat"
  random_reads :: nat
  clock :: "nat \<Rightarrow> int"
  clock_reads :: nat

definition fetch :: "request \<Rightarrow> world \<Rightarrow> fetch_result \<times> world" where
  "fetch rq w =
     (let r = network w (length (requests w))
      in (r, w\<lparr> requests := requests w @ [(rq, r)] \<rparr>))"

definition Date_now :: "world \<Rightarrow> int \<times> world" where
  "Date_now w = (clock w (clock_reads w), w\<lparr> clock_reads := clock_reads w + 1 \<rparr>)"

text \<open>
  \<^verbatim>\<open>generateUUID\<close> (lines 564-573): a fresh identifier from the random source. The digits
  drawn are what matters; the layout of a UUID is not reproduced.
\<close>

definition generateUUID :: "world \<Rightarrow> string \<times> world" where
  "generateUUID w =
     (''uuid-'' @ show_nat (random w (random_reads w)),
      w\<lparr> random_reads := random_reads w + 1 \<rparr>)"

text \<open>
  The launch parameters in \<^verbatim>\<open>window.location.search\<close>. \<open>p_actor\<close> is the \<^verbatim>\<open>actor\<close> parameter
  with what \<^verbatim>\<open>JSON.parse\<close> makes of it; \<open>p_fetch_session\<close> is what
  \<^verbatim>\<open>new URL(fetch).searchParams.get('session')\<close> gives for the \<^verbatim>\<open>fetch\<close> parameter.
\<close>

datatype actor_param = NoActor | EmptyActor | BadActor | Actor json

datatype url_session = BadUrl | UrlSession "string option"

record launch =
  p_endpoint :: "string option"
  p_fetch :: "string option"
  p_fetch_session :: url_session
  p_actor :: actor_param
  p_registration :: "string option"
  p_activityId :: "string option"

subsection \<open>Module state\<close>

record log_entry =
  le_timestamp :: int
  le_verb :: string
  le_success :: "bool option"
  le_error :: "string option"
  le_sync :: bool

record cmi5 =
  initialized :: bool
  terminated :: bool
  endpoint :: "string option"
  fetchUrl :: "string option"
  actor :: "json option"
  registration :: "string option"
  activityId :: "string option"
  authToken :: "json option"
  sessionId :: "string option"
  launchData :: "json option"
  contextTemplate :: "json option"
  launchMode :: json
  masteryScore :: json
  moveOn :: json
  returnURL :: "json option"
  completionSent :: bool
  successSent :: bool
  startTime :: "int option"
  statementLog :: "log_entry list"
  learnerPreferences :: "json option"

text \<open>The module state when the script has just been loaded (lines 48-76, 477).\<close>

definition fresh_cmi5 :: cmi5 where
  "fresh_cmi5 =
     \<lparr> initialized = False, terminated = False, endpoint = None, fetchUrl = None,
       actor = None, registration = None, activityId = None, authToken = None,
       sessionId = None, launchData = None, contextTemplate = None,
       launchMode = JStr ''Normal'', masteryScore = JNum (3 / 4),
       moveOn = JStr ''CompletedOrPassed'', returnURL = None, completionSent = False,
       successSent = False, startTime = None, statementLog = [],
       learnerPreferences = None \<rparr>"

subsection \<open>Session store\<close>

text \<open>\<^verbatim>\<open>saveSessionData\<close> (lines 84-109).\<close>

definition saveSessionData :: "cmi5 \<Rightarrow> world \<Rightarrow> world" where
  "saveSessionData c w =
     w\<lparr> sessionStorage := Some
          \<lparr> d_endpoint = endpoint c,
            d_authToken = map_option json_copy (authToken c),
            d_actor = map_option json_copy (actor c),
            d_registration = registration c,
            d_activityId = activityId c,
            d_sessionId = sessionId c,
            d_launchData = map_option json_copy (launchData c),
            d_contextTemplate = map_option json_copy (contextTemplate c),
            d_launchMode = json_copy (launchMode c),
            d_masteryScore = json_copy (masteryScore c),
            d_moveOn = json_copy (moveOn c),
            d_returnURL = map_option json_copy (returnURL c),
            d_startTime = startTime c,
            d_initialized = initialized c,
            d_completionSent = completionSent c,
            d_successSent = successSent c \<rparr> \<rparr>"

text \<open>\<^verbatim>\<open>clearSessionData\<close> (lines 193-199).\<close>

definition clearSessionData :: "world \<Rightarrow> world" where
  "clearSessionData w = w\<lparr> sessionStorage := None \<rparr>"

text \<open>The session id that \<^verbatim>\<open>loadSessionData\<close> extracts from the current fetch URL (lines 130-138).\<close>

definition currentSessionIdFromUrl :: "launch \<Rightarrow> string option" where
  "currentSessionIdFromUrl l =
     (if truthy_str (p_fetch l) then
        (case p_fetch_session l of BadUrl \<Rightarrow> None | UrlSession s \<Rightarrow> s)
      else None)"

definition registrationMatches :: "launch \<Rightarrow> session_data \<Rightarrow> bool" where
  "registrationMatches l d =
     (truthy_str (d_registration d) \<and> d_registration d = p_registration l)"

definition sessionMatches :: "launch \<Rightarrow> session_data \<Rightarrow> bool" where
  "sessionMatches l d =
     (\<not> truthy_str (currentSessionIdFromUrl l) \<or> d_sessionId d = currentSessionIdFromUrl l)"

text \<open>\<^verbatim>\<open>loadSessionData\<close> (lines 115-188).\<close>

definition loadSessionData :: "launch \<Rightarrow> cmi5 \<Rightarrow> world \<Rightarrow> bool \<times> cmi5 \<times> world" where
  "loadSessionData l c w =
     (case sessionStorage w of
        None \<Rightarrow> (False, c, w)
      | Some d \<Rightarrow>
          if registrationMatches l d \<and> sessionMatches l d \<and> truthy_opt (d_authToken d) then
            (True,
             c\<lparr> endpoint := d_endpoint d,
                authToken := d_authToken d,
                actor := d_actor d,
                registration := d_registration d,
                activityId := d_activityId d,
                sessionId := d_sessionId d,
                launchData := d_launchData d,
                contextTemplate := d_contextTemplate d,
                launchMode := (if truthy (d_launchMode d) then d_launchMode d else JStr ''Normal''),
                masteryScore := (if d_masteryScore d = JNull then JNum (3 / 4) else d_masteryScore d),
                moveOn := (if truthy (d_moveOn d) then d_moveOn d else JStr ''CompletedOrPassed''),
                returnURL := d_returnURL d,
                startTime := d_startTime d,
                initialized := d_initialized d,
                completionSent := d_completionSent d,
                successSent := d_successSent d \<rparr>,
             w)
          else (False, c, clearSessionData w))"

subsection \<open>Launch parameters\<close>

text \<open>\<^verbatim>\<open>parseLaunchParameters\<close> (lines 203-241).\<close>

definition parseLaunchParameters :: "launch \<Rightarrow> cmi5 \<Rightarrow> bool \<times> cmi5" where
  "parseLaunchParameters l c0 =
     (let c1 = c0\<lparr> endpoint := p_endpoint l, fetchUrl := p_fetch l,
                   registration := p_registration l, activityId := p_activityId l \<rparr>;
          c = (case p_actor l of Actor a \<Rightarrow> c1\<lparr> actor := Some a \<rparr> | _ \<Rightarrow> c1)
      in (truthy_str (endpoint c) \<and> truthy_str (fetchUrl c) \<and> truthy_opt (actor c) \<and>
          truthy_str (registration c) \<and> truthy_str (activityId c), c))"

subsection \<open>Credential exchange\<close>

text \<open>The token field of the response: \<^verbatim>\<open>data['auth-token'] || data.authToken || data.token\<close>.\<close>

definition token_of :: "json \<Rightarrow> js_error + json option" where
  "token_of data =
     (case get_prop data ''auth-token'' of
        Inl e \<Rightarrow> Inl e
      | Inr a \<Rightarrow>
          if truthy_opt a then Inr a
          else (case get_prop data ''authToken'' of
                  Inl e \<Rightarrow> Inl e
                | Inr b \<Rightarrow> if truthy_opt b then Inr b else get_prop data ''token''))"

text \<open>
  \<^verbatim>\<open>fetchAuthToken\<close> (lines 252-317). \<^verbatim>\<open>authToken\<close> is assigned before it is examined, so
  an exception after the assignment leaves the assigned value in the module state.
\<close>

definition fetchAuthToken :: "cmi5 \<Rightarrow> world \<Rightarrow> (js_error + bool) \<times> cmi5 \<times> world" where
  "fetchAuthToken c w0 =
     (case fetchUrl c of
        None \<Rightarrow> (Inl (Error ''No fetch URL available''), c, w0)
      | Some url \<Rightarrow>
          if url = [] then (Inl (Error ''No fetch URL available''), c, w0)
          else
            (case fetch (ExchangeRequest url) w0 of
               (Rejected e, w) \<Rightarrow> (Inl e, c, w)
             | (Response r, w) \<Rightarrow>
                 if \<not> ok r then
                   (Inl (Error (''Auth fetch failed: '' @ show_nat (status r) @ '' '' @ statusText r)),
                    c, w)
                 else
                   (case body_json r of
                      None \<Rightarrow> (Inl (JsError ''SyntaxError'' ''Unexpected token''), c, w)
                    | Some data \<Rightarrow>
                        (case token_of data of
                           Inl e \<Rightarrow> (Inl e, c, w)
                         | Inr tok \<Rightarrow>
                             if \<not> truthy_opt tok then
                               (Inl (Error ''No auth token in response''), c\<lparr> authToken := tok \<rparr>, w)
                             else
                               (case tok of
                                  Some (JStr t) \<Rightarrow>
                                    let c' = c\<lparr> authToken :=
                                               Some (JStr (if \<not> startsWith t ''Basic '' \<and>
                                                              \<not> startsWith t ''Bearer ''
                                                           then ''Basic '' @ t else t)) \<rparr>
                                    in (Inr True, c', saveSessionData c' w)
                                | _ \<Rightarrow>
                                    (Inl (TypeError ''authToken.startsWith is not a function''),
                                     c\<lparr> authToken := tok \<rparr>, w))))))"

subsection \<open>Requests to the LRS\<close>

definition MAX_RETRIES :: nat where
  "MAX_RETRIES = 3"

definition isConnected :: "cmi5 \<Rightarrow> bool" where
  "isConnected c = (truthy_str (endpoint c) \<and> truthy_opt (authToken c))"

text \<open>\<^verbatim>\<open>endpoint.endsWith('/') ? endpoint : endpoint + '/'\<close>.\<close>

definition baseUrl :: "string \<Rightarrow> string" where
  "baseUrl e = (if e \<noteq> [] \<and> last e = CHR ''/'' then e else e @ ''/'')"

text \<open>
  \<^verbatim>\<open>lrsRequest\<close> (lines 331-416). The waits between retries take time and nothing else.
  An error thrown inside the \<^verbatim>\<open>try\<close> block for a response that is not ok is caught by the
  \<^verbatim>\<open>catch\<close> block below it, which rethrows it, its name not being \<^verbatim>\<open>TypeError\<close>.
\<close>

function lrsRequest ::
  "cmi5 \<Rightarrow> lrs_path \<Rightarrow> http_method \<Rightarrow> statement option \<Rightarrow> nat \<Rightarrow> world
     \<Rightarrow> (js_error + json option) \<times> world" where
  "lrsRequest c path method body retryCount w0 =
     (if \<not> truthy_str (endpoint c) \<or> \<not> truthy_opt (authToken c) then
        (Inl (Error ''LRS not configured (missing endpoint or authToken)''), w0)
      else
        (case fetch (LrsRequest method (baseUrl (the (endpoint c))) path (authToken c) body) w0 of
           (Rejected e, w) \<Rightarrow>
             if retryCount < MAX_RETRIES \<and> err_name e = ''TypeError''
             then lrsRequest c path method body (retryCount + 1) w
             else (Inl e, w)
         | (Response r, w) \<Rightarrow>
             if \<not> ok r then
               if status r = 404 \<and> method = GET then (Inr None, w)
               else if retryCount < MAX_RETRIES \<and> (status r \<ge> 500 \<or> status r = 0)
               then lrsRequest c path method body (retryCount + 1) w
               else
                 (Inl (Error (''LRS request failed: '' @ show_nat (status r) @ '' '' @
                              statusText r @ '' - '' @ body_text r)), w)
             else if body_text r \<noteq> [] then
               (case body_json r of
                  Some j \<Rightarrow> (Inr (Some j), w)
                | None \<Rightarrow> (Inr (Some (JStr (body_text r))), w))
             else (Inr None, w)))"
  by pat_completeness auto
termination
  by (relation "measure (\<lambda>(c, path, method, body, retryCount, w). MAX_RETRIES - retryCount)")
    auto

declare lrsRequest.simps [simp del]

text \<open>A property of a value that is known not to be \<^verbatim>\<open>null\<close>.\<close>

definition peek :: "json \<Rightarrow> string \<Rightarrow> json option" where
  "peek v k = (case get_prop v k of Inr x \<Rightarrow> x | Inl e \<Rightarrow> None)"

text \<open>\<^verbatim>\<open>fetchLearnerPreferences\<close> (lines 483-515); it returns \<^verbatim>\<open>true\<close> on every path.\<close>

definition fetchLearnerPreferences :: "cmi5 \<Rightarrow> world \<Rightarrow> cmi5 \<times> world" where
  "fetchLearnerPreferences c w0 =
     (case lrsRequest c (AgentsProfile (actor c)) GET None 0 w0 of
        (Inr r, w) \<Rightarrow>
          (c\<lparr> learnerPreferences := (if truthy_opt r then r else Some (JObj [])) \<rparr>, w)
      | (Inl e, w) \<Rightarrow> (c\<lparr> learnerPreferences := Some (JObj []) \<rparr>, w))"

text \<open>\<^verbatim>\<open>fetchLaunchData\<close> (lines 519-560); it returns \<^verbatim>\<open>true\<close> on every path.\<close>

definition fetchLaunchData :: "cmi5 \<Rightarrow> world \<Rightarrow> cmi5 \<times> world" where
  "fetchLaunchData c w0 =
     (case lrsRequest c (ActivitiesState (activityId c) (actor c) (registration c)) GET None 0 w0 of
        (Inr r, w) \<Rightarrow>
          (case r of
             None \<Rightarrow> (c\<lparr> launchData := None \<rparr>, w)
           | Some ld \<Rightarrow>
               if \<not> truthy ld then (c\<lparr> launchData := Some ld \<rparr>, w)
               else
                 (c\<lparr> launchData := Some ld,
                     contextTemplate := peek ld ''contextTemplate'',
                     launchMode := (if truthy_opt (peek ld ''launchMode'')
                                    then the (peek ld ''launchMode'') else JStr ''Normal''),
                     masteryScore := (case peek ld ''masteryScore'' of
                                        None \<Rightarrow> JNum (3 / 4)
                                      | Some JNull \<Rightarrow> JNum (3 / 4)
                                      | Some m \<Rightarrow> m),
                     moveOn := (if truthy_opt (peek ld ''moveOn'')
                                then the (peek ld ''moveOn'') else JStr ''CompletedOrPassed''),
                     returnURL := peek ld ''returnURL'' \<rparr>, w))
      | (Inl e, w) \<Rightarrow> (c, w))"

subsection \<open>Building statements\<close>

definition and_then :: "'e + 'a \<Rightarrow> ('a \<Rightarrow> 'e + 'b) \<Rightarrow> 'e + 'b" where
  "and_then m f = (case m of Inl e \<Rightarrow> Inl e | Inr x \<Rightarrow> f x)"

definition sessionid_extension :: string where
  "sessionid_extension = ''https://w3id.org/xapi/cmi5/context/extensions/sessionid''"

definition cmi5_category :: string where
  "cmi5_category = ''https://w3id.org/xapi/cmi5/context/categories/cmi5''"

definition moveon_category :: string where
  "moveon_category = ''https://w3id.org/xapi/cmi5/context/categories/moveon''"

definition verb_initialized :: verb where
  "verb_initialized =
     \<lparr> verb_id = ''http://adlnet.gov/expapi/verbs/initialized'', verb_display = Some ''initialized'' \<rparr>"

definition verb_completed :: verb where
  "verb_completed =
     \<lparr> verb_id = ''http://adlnet.gov/expapi/verbs/completed'', verb_display = Some ''completed'' \<rparr>"

definition verb_passed :: verb where
  "verb_passed =
     \<lparr> verb_id = ''http://adlnet.gov/expapi/verbs/passed'', verb_display = Some ''passed'' \<rparr>"

definition verb_failed :: verb where
  "verb_failed =
     \<lparr> verb_id = ''http://adlnet.gov/expapi/verbs/failed'', verb_display = Some ''failed'' \<rparr>"

definition verb_terminated :: verb where
  "verb_terminated =
     \<lparr> verb_id = ''http://adlnet.gov/expapi/verbs/terminated'', verb_display = Some ''terminated'' \<rparr>"

text \<open>\<^verbatim>\<open>if (!v[k]) v[k] = d\<close>.\<close>

definition ensure_prop :: "json \<Rightarrow> string \<Rightarrow> json \<Rightarrow> js_error + json" where
  "ensure_prop v k d =
     and_then (get_prop v k) (\<lambda>x. if truthy_opt x then Inr v else set_prop v k d)"

text \<open>
  A change \<open>f\<close> made in place to the object that \<^verbatim>\<open>v[k]\<close> holds: in a tree of values,
  the changed object is put back under \<open>k\<close>.
\<close>

definition update_prop :: "json \<Rightarrow> string \<Rightarrow> (json \<Rightarrow> js_error + json) \<Rightarrow> js_error + json" where
  "update_prop v k f =
     and_then (get_prop v k)
       (\<lambda>x. case x of
               None \<Rightarrow> Inl (TypeError ''Cannot read properties of undefined'')
             | Some y \<Rightarrow> and_then (f y) (\<lambda>y'. set_prop v k y'))"

text \<open>\<^verbatim>\<open>category.some(cat => cat.id === iri)\<close>, which stops at the first match.\<close>

fun some_has_id :: "string \<Rightarrow> json list \<Rightarrow> js_error + bool" where
  "some_has_id iri [] = Inr False"
| "some_has_id iri (x # xs) =
     (case get_prop x ''id'' of
        Inl e \<Rightarrow> Inl e
      | Inr v \<Rightarrow> if v = Some (JStr iri) then Inr True else some_has_id iri xs)"

definition category_entry :: "string \<Rightarrow> json" where
  "category_entry iri = JObj [(''id'', JStr iri), (''objectType'', JStr ''Activity'')]"

text \<open>The test for a category and the \<^verbatim>\<open>push\<close> when it is absent (lines 616-625, 631-639).\<close>

definition add_category :: "string \<Rightarrow> json \<Rightarrow> js_error + json" where
  "add_category iri cat =
     (case cat of
        JArr es ps \<Rightarrow>
          and_then (some_has_id iri es)
            (\<lambda>has. if has then Inr cat else Inr (JArr (es @ [category_entry iri]) ps))
      | _ \<Rightarrow> Inl (TypeError ''context.contextActivities.category.some is not a function''))"

text \<open>The context of \<^verbatim>\<open>buildStatement\<close> (lines 591-640).\<close>

definition build_context :: "cmi5 \<Rightarrow> verb \<Rightarrow> js_error + json" where
  "build_context c v =
     (let context0 = (if truthy_opt (contextTemplate c)
                      then json_copy (the (contextTemplate c)) else JObj [])
      in
      and_then (set_prop context0 ''registration'' (json_of_str (registration c))) (\<lambda>context1.
      and_then (ensure_prop context1 ''extensions'' (JObj [])) (\<lambda>context2.
      and_then (update_prop context2 ''extensions''
                  (\<lambda>e. set_prop e sessionid_extension (json_of_str (sessionId c)))) (\<lambda>context3.
      and_then (ensure_prop context3 ''contextActivities'' (JObj [])) (\<lambda>context4.
      and_then (update_prop context4 ''contextActivities''
                  (\<lambda>ca. ensure_prop ca ''category'' (JArr [] []))) (\<lambda>context5.
      and_then (update_prop context5 ''contextActivities''
                  (\<lambda>ca. update_prop ca ''category'' (add_category cmi5_category))) (\<lambda>context6.
      if verb_id v = ''http://adlnet.gov/expapi/verbs/passed'' \<or>
         verb_id v = ''http://adlnet.gov/expapi/verbs/failed''
      then update_prop context6 ''contextActivities''
             (\<lambda>ca. update_prop ca ''category'' (add_category moveon_category))
      else Inr context6)))))))"

definition default_object :: "cmi5 \<Rightarrow> json" where
  "default_object c =
     JObj [(''id'', json_of_str (activityId c)), (''objectType'', JStr ''Activity'')]"

text \<open>\<^verbatim>\<open>buildStatement\<close> (lines 578-650).\<close>

definition buildStatement ::
  "cmi5 \<Rightarrow> verb \<Rightarrow> json option \<Rightarrow> json option \<Rightarrow> world \<Rightarrow> (js_error + statement) \<times> world" where
  "buildStatement c v result objectOverride w0 =
     (case generateUUID w0 of (uuid, w1) \<Rightarrow>
      case Date_now w1 of (t, w) \<Rightarrow>
        (and_then (build_context c v)
           (\<lambda>context. Inr
              \<lparr> st_id = uuid, st_actor = actor c, st_verb = v,
                st_object = (if truthy_opt objectOverride then the objectOverride
                             else default_object c),
                st_timestamp = t, st_context = context,
                st_result = (if truthy_opt result then result else None) \<rparr>),
         w))"

subsection \<open>Sending statements\<close>

text \<open>\<^verbatim>\<open>id.split('/').pop()\<close>: what follows the last slash.\<close>

definition last_segment :: "string \<Rightarrow> string" where
  "last_segment s = rev (takeWhile (\<lambda>ch. ch \<noteq> CHR ''/'') (rev s))"

definition verbName :: "verb \<Rightarrow> string" where
  "verbName v =
     (if truthy_str (verb_display v) then the (verb_display v) else last_segment (verb_id v))"

text \<open>The internal \<^verbatim>\<open>sendStatement\<close> (lines 654-686).\<close>

definition sendStatement ::
  "statement \<Rightarrow> cmi5 \<Rightarrow> world \<Rightarrow> (js_error + string option) \<times> cmi5 \<times> world" where
  "sendStatement s c w0 =
     (if terminated c \<and> verb_id (st_verb s) \<noteq> ''http://adlnet.gov/expapi/verbs/terminated''
      then (Inr None, c, w0)
      else
        let entry = \<lparr> le_timestamp = st_timestamp s, le_verb = verbName (st_verb s),
                      le_success = None, le_error = None, le_sync = False \<rparr>;
            c1 = c\<lparr> statementLog := statementLog c @ [entry] \<rparr>
        in
        (case lrsRequest c1 (Statements (st_id s)) PUT (Some s) 0 w0 of
           (Inr r, w) \<Rightarrow>
             (Inr (Some (st_id s)),
              c\<lparr> statementLog := statementLog c @ [entry\<lparr> le_success := Some True \<rparr>] \<rparr>, w)
         | (Inl e, w) \<Rightarrow>
             (Inl e,
              c\<lparr> statementLog := statementLog c @ [entry\<lparr> le_error := Some (err_message e) \<rparr>] \<rparr>,
              w)))"

text \<open>The remainder \<^verbatim>\<open>a % b\<close> of JavaScript, which has the sign of \<open>a\<close>.\<close>

definition js_rem :: "int \<Rightarrow> int \<Rightarrow> int" where
  "js_rem a b = (if 0 \<le> a then a mod \<bar>b\<bar> else - ((- a) mod \<bar>b\<bar>))"

text \<open>\<^verbatim>\<open>calculateDuration\<close> (lines 719-739).\<close>

definition calculateDuration :: "cmi5 \<Rightarrow> world \<Rightarrow> string \<times> world" where
  "calculateDuration c w0 =
     (case startTime c of
        None \<Rightarrow> (''PT0S'', w0)
      | Some t0 \<Rightarrow>
          if t0 = 0 then (''PT0S'', w0)
          else
            (case Date_now w0 of (t, w) \<Rightarrow>
               let ms = t - t0;
                   seconds = ms div 1000;
                   minutes = seconds div 60;
                   hours = minutes div 60;
                   s = js_rem seconds 60;
                   m = js_rem minutes 60;
                   h = hours
               in (''PT'' @ (if h > 0 then show_int h @ ''H'' else [])
                         @ (if m > 0 then show_int m @ ''M'' else [])
                         @ show_int s @ ''S'', w)))"

text \<open>Building a statement and sending it, as every lifecycle function does.\<close>

definition build_and_send ::
  "verb \<Rightarrow> json option \<Rightarrow> cmi5 \<Rightarrow> world \<Rightarrow> (js_error + string option) \<times> cmi5 \<times> world" where
  "build_and_send v result c w0 =
     (case buildStatement c v result None w0 of
        (Inl e, w) \<Rightarrow> (Inl e, c, w)
      | (Inr s, w) \<Rightarrow> sendStatement s c w)"

text \<open>\<^verbatim>\<open>sendInitialized\<close> (lines 741-749).\<close>

definition sendInitialized :: "cmi5 \<Rightarrow> world \<Rightarrow> (js_error + string option) \<times> cmi5 \<times> world" where
  "sendInitialized c w = build_and_send verb_initialized None c w"

text \<open>\<^verbatim>\<open>if (id) { flag = true; saveSessionData(); }\<close> after a send.\<close>

definition truthy_id :: "js_error + string option \<Rightarrow> bool" where
  "truthy_id r = (case r of Inr i \<Rightarrow> truthy_str i | Inl e \<Rightarrow> False)"

text \<open>\<^verbatim>\<open>sendCompleted\<close> (lines 751-776).\<close>

definition sendCompleted :: "cmi5 \<Rightarrow> world \<Rightarrow> (js_error + string option) \<times> cmi5 \<times> world" where
  "sendCompleted c w0 =
     (if completionSent c then (Inr None, c, w0)
      else
        case calculateDuration c w0 of (duration, w1) \<Rightarrow>
        case build_and_send verb_completed
               (Some (JObj [(''completion'', JBool True), (''duration'', JStr duration)])) c w1 of
          (r, c1, w) \<Rightarrow>
            if truthy_id r
            then (let c2 = c1\<lparr> completionSent := True \<rparr> in (r, c2, saveSessionData c2 w))
            else (r, c1, w))"

text \<open>The score of a result (lines 796-803): clamped to the unit interval, with raw, min and max.\<close>

definition score_object :: "real \<Rightarrow> json" where
  "score_object score =
     (let scaled = min 1 (max 0 score)
      in JObj [(''scaled'', JNum scaled), (''raw'', JNum (of_int \<lfloor>scaled * 100 + 1 / 2\<rfloor>)),
               (''min'', JNum 0), (''max'', JNum 100)])"

definition success_result :: "bool \<Rightarrow> string \<Rightarrow> real option \<Rightarrow> json" where
  "success_result success duration score =
     JObj ([(''success'', JBool success), (''duration'', JStr duration)] @
           (case score of None \<Rightarrow> [] | Some x \<Rightarrow> [(''score'', score_object x)]))"

text \<open>\<^verbatim>\<open>sendPassed\<close> (lines 778-814).\<close>

definition sendPassed ::
  "real option \<Rightarrow> cmi5 \<Rightarrow> world \<Rightarrow> (js_error + string option) \<times> cmi5 \<times> world" where
  "sendPassed score c w0 =
     (if successSent c then (Inr None, c, w0)
      else
        case calculateDuration c w0 of (duration, w1) \<Rightarrow>
        case build_and_send verb_passed (Some (success_result True duration score)) c w1 of
          (r, c1, w) \<Rightarrow>
            if truthy_id r
            then (let c2 = c1\<lparr> successSent := True \<rparr> in (r, c2, saveSessionData c2 w))
            else (r, c1, w))"

text \<open>\<^verbatim>\<open>sendFailed\<close> (lines 816-852).\<close>

definition sendFailed ::
  "real option \<Rightarrow> cmi5 \<Rightarrow> world \<Rightarrow> (js_error + string option) \<times> cmi5 \<times> world" where
  "sendFailed score c w0 =
     (if successSent c then (Inr None, c, w0)
      else
        case calculateDuration c w0 of (duration, w1) \<Rightarrow>
        case build_and_send verb_failed (Some (success_result False duration score)) c w1 of
          (r, c1, w) \<Rightarrow>
            if truthy_id r
            then (let c2 = c1\<lparr> successSent := True \<rparr> in (r, c2, saveSessionData c2 w))
            else (r, c1, w))"

text \<open>\<^verbatim>\<open>sendTerminated\<close> (lines 854-880).\<close>

definition sendTerminated :: "cmi5 \<Rightarrow> world \<Rightarrow> (js_error + string option) \<times> cmi5 \<times> world" where
  "sendTerminated c w0 =
     (if terminated c then (Inr None, c, w0)
      else
        case calculateDuration c w0 of (duration, w1) \<Rightarrow>
        case build_and_send verb_terminated (Some (JObj [(''duration'', JStr duration)])) c w1 of
          (Inr i, c1, w) \<Rightarrow> (Inr i, c1\<lparr> terminated := True \<rparr>, clearSessionData w)
        | (Inl e, c1, w) \<Rightarrow> (Inl e, c1, w))"

subsection \<open>Public interface\<close>

text \<open>The session id of a fresh launch (lines 954-972).\<close>

definition launch_sessionId :: "cmi5 \<Rightarrow> launch \<Rightarrow> world \<Rightarrow> cmi5 \<times> world" where
  "launch_sessionId c l w0 =
     (if truthy_str (fetchUrl c) then
        (case p_fetch_session l of
           UrlSession s \<Rightarrow>
             if truthy_str s then (c\<lparr> sessionId := s \<rparr>, w0)
             else (case generateUUID w0 of (u, w) \<Rightarrow> (c\<lparr> sessionId := Some u \<rparr>, w))
         | BadUrl \<Rightarrow> (case generateUUID w0 of (u, w) \<Rightarrow> (c\<lparr> sessionId := Some u \<rparr>, w)))
      else (case generateUUID w0 of (u, w) \<Rightarrow> (c\<lparr> sessionId := Some u \<rparr>, w)))"

text \<open>The four steps of a fresh launch with complete parameters (lines 982-1016).\<close>

definition launch_steps :: "cmi5 \<Rightarrow> world \<Rightarrow> bool \<times> cmi5 \<times> world" where
  "launch_steps c0 w0 =
     (case fetchAuthToken c0 w0 of
        (Inl e, c1, w1) \<Rightarrow> (False, c1\<lparr> initialized := True \<rparr>, w1)
      | (Inr t, c1, w1) \<Rightarrow>
          case fetchLearnerPreferences c1 w1 of (c2, w2) \<Rightarrow>
          case fetchLaunchData c2 w2 of (c3, w3) \<Rightarrow>
          case sendInitialized c3 w3 of
            (Inl e, c4, w4) \<Rightarrow> (False, c4\<lparr> initialized := True \<rparr>, w4)
          | (Inr i, c4, w4) \<Rightarrow>
              let c5 = c4\<lparr> initialized := True \<rparr> in (True, c5, saveSessionData c5 w4))"

text \<open>\<^verbatim>\<open>initialize\<close> (lines 919-1017) on the page launched with the parameters \<open>l\<close>.\<close>

definition initialize :: "launch \<Rightarrow> cmi5 \<Rightarrow> world \<Rightarrow> bool \<times> cmi5 \<times> world" where
  "initialize l c0 w0 =
     (if initialized c0 then (True, c0, w0)
      else
        case loadSessionData l c0 w0 of (hasExistingSession, c1, w1) \<Rightarrow>
          if hasExistingSession \<and> truthy_opt (authToken c1) \<and> truthy_str (endpoint c1)
          then (True, c1, w1)
          else
            case Date_now w1 of (t, w2) \<Rightarrow>
            case parseLaunchParameters l (c1\<lparr> startTime := Some t \<rparr>) of (hasParams, c2) \<Rightarrow>
            case launch_sessionId c2 l w2 of (c3, w3) \<Rightarrow>
              if \<not> hasParams then (True, c3\<lparr> initialized := True \<rparr>, w3)
              else launch_steps c3 w3)"

text \<open>A reload of the page: the script starts from its initial state and initialises.\<close>

definition page_load :: "launch \<Rightarrow> world \<Rightarrow> bool \<times> cmi5 \<times> world" where
  "page_load l w = initialize l fresh_cmi5 w"





subsection \<open>Leaving the page\<close>









subsection \<open>Objects and references\<close>

text \<open>
  So far a value is a tree, and two values never share a part. Whether building a statement
  can change the cached context template is a question about objects that several values
  refer to, so for it the values live in a heap: a value is a primitive or a reference to
  an object, an object is on the heap at its address, and an assignment to a property
  changes the object on the heap, for everyone who holds a reference to it.
\<close>

datatype hval = HNull | HBool bool | HNum real | HStr string | HRef nat

datatype hobj = HObj "(string \<times> hval) list" | HArr "hval list" "(string \<times> hval) list"

type_synonym heap = "hobj list"

fun h_truthy :: "hval \<Rightarrow> bool" where
  "h_truthy HNull = False"
| "h_truthy (HBool b) = b"
| "h_truthy (HNum n) = (n \<noteq> 0)"
| "h_truthy (HStr s) = (s \<noteq> [])"
| "h_truthy (HRef a) = True"

fun h_truthy_opt :: "hval option \<Rightarrow> bool" where
  "h_truthy_opt None = False"
| "h_truthy_opt (Some v) = h_truthy v"

definition h_of_str :: "string option \<Rightarrow> hval" where
  "h_of_str s = (case s of None \<Rightarrow> HNull | Some t \<Rightarrow> HStr t)"

text \<open>The named properties of an object, and the object with other ones.\<close>

fun props :: "hobj \<Rightarrow> (string \<times> hval) list" where
  "props (HObj fs) = fs"
| "props (HArr es ps) = ps"

fun with_props :: "hobj \<Rightarrow> (string \<times> hval) list \<Rightarrow> hobj" where
  "with_props (HObj fs) fs' = HObj fs'"
| "with_props (HArr es ps) fs' = HArr es fs'"

text \<open>A step of the program on the heap returns a value or throws, and leaves a heap.\<close>

type_synonym 'a hm = "heap \<Rightarrow> (js_error + 'a) \<times> heap"

definition h_return :: "'a \<Rightarrow> 'a hm" where
  "h_return x h = (Inr x, h)"

definition h_throw :: "js_error \<Rightarrow> 'a hm" where
  "h_throw e h = (Inl e, h)"

definition h_bind :: "'a hm \<Rightarrow> ('a \<Rightarrow> 'b hm) \<Rightarrow> 'b hm" where
  "h_bind f g h = (case f h of (Inl e, h1) \<Rightarrow> (Inl e, h1) | (Inr x, h1) \<Rightarrow> g x h1)"

text \<open>
  \<^verbatim>\<open>v[k]\<close>, where \<open>None\<close> stands for \<^verbatim>\<open>undefined\<close>; \<^verbatim>\<open>v[k] = x\<close> in strict mode; and an
  object literal or array literal, which is a new object on the heap.
\<close>

definition h_get :: "hval option \<Rightarrow> string \<Rightarrow> hval option hm" where
  "h_get v k h =
     (case v of
        None \<Rightarrow> (Inl (TypeError ''Cannot read properties of undefined''), h)
      | Some HNull \<Rightarrow> (Inl (TypeError ''Cannot read properties of null''), h)
      | Some (HRef a) \<Rightarrow> (Inr (if a < length h then map_of (props (h ! a)) k else None), h)
      | Some p \<Rightarrow> (Inr None, h))"

definition h_set :: "hval option \<Rightarrow> string \<Rightarrow> hval \<Rightarrow> unit hm" where
  "h_set v k x h =
     (case v of
        Some (HRef a) \<Rightarrow>
          if a < length h
          then (Inr (), h[a := with_props (h ! a) (AList.update k x (props (h ! a)))])
          else (Inl (TypeError ''Cannot create property''), h)
      | _ \<Rightarrow> (Inl (TypeError ''Cannot create property''), h))"

definition h_new :: "hobj \<Rightarrow> hval hm" where
  "h_new obj h = (Inr (HRef (length h)), h @ [obj])"

text \<open>\<^verbatim>\<open>arr.some(cat => cat.id === iri)\<close> and \<^verbatim>\<open>arr.push(x)\<close>; only an array has them.\<close>

fun h_some_id :: "string \<Rightarrow> hval list \<Rightarrow> heap \<Rightarrow> js_error + bool" where
  "h_some_id iri [] h = Inr False"
| "h_some_id iri (x # xs) h =
     (case fst (h_get (Some x) ''id'' h) of
        Inl e \<Rightarrow> Inl e
      | Inr v \<Rightarrow> if v = Some (HStr iri) then Inr True else h_some_id iri xs h)"

definition h_some :: "hval option \<Rightarrow> string \<Rightarrow> bool hm" where
  "h_some arr iri h =
     (case arr of
        Some (HRef a) \<Rightarrow>
          (if a < length h then
             (case h ! a of
                HArr es ps \<Rightarrow> (h_some_id iri es h, h)
              | HObj fs \<Rightarrow> (Inl (TypeError ''some is not a function''), h))
           else (Inl (TypeError ''some is not a function''), h))
      | _ \<Rightarrow> (Inl (TypeError ''some is not a function''), h))"

definition h_push :: "hval option \<Rightarrow> hval \<Rightarrow> unit hm" where
  "h_push arr x h =
     (case arr of
        Some (HRef a) \<Rightarrow>
          (if a < length h then
             (case h ! a of
                HArr es ps \<Rightarrow> (Inr (), h[a := HArr (es @ [x]) ps])
              | HObj fs \<Rightarrow> (Inl (TypeError ''push is not a function''), h))
           else (Inl (TypeError ''push is not a function''), h))
      | _ \<Rightarrow> (Inl (TypeError ''push is not a function''), h))"

text \<open>
  \<^verbatim>\<open>JSON.stringify(v)\<close> reads the objects that \<open>v\<close> refers to, into a tree; it throws on a
  circular structure. No chain of distinct objects is longer than the heap, so a reading
  that goes deeper than the heap has objects is on a circle: the depth is what \<open>n\<close> counts.
  An array is written without its named properties.
\<close>

fun read :: "nat \<Rightarrow> heap \<Rightarrow> hval \<Rightarrow> json option"
  and read_list :: "nat \<Rightarrow> heap \<Rightarrow> hval list \<Rightarrow> json list option"
  and read_fields :: "nat \<Rightarrow> heap \<Rightarrow> (string \<times> hval) list \<Rightarrow> (string \<times> json) list option" where
  "read n h HNull = Some JNull"
| "read n h (HBool b) = Some (JBool b)"
| "read n h (HNum x) = Some (JNum x)"
| "read n h (HStr s) = Some (JStr s)"
| "read 0 h (HRef a) = None"
| "read (Suc n) h (HRef a) =
     (if a < length h then
        (case h ! a of
           HObj fs \<Rightarrow> map_option JObj (read_fields n h fs)
         | HArr es ps \<Rightarrow> map_option (\<lambda>js. JArr js []) (read_list n h es))
      else None)"
| "read_list n h [] = Some []"
| "read_list n h (v # vs) =
     (case read n h v of
        None \<Rightarrow> None
      | Some j \<Rightarrow> map_option (\<lambda>js. j # js) (read_list n h vs))"
| "read_fields n h [] = Some []"
| "read_fields n h (kv # fs) =
     (case read n h (snd kv) of
        None \<Rightarrow> None
      | Some j \<Rightarrow> map_option (\<lambda>js. (fst kv, j) # js) (read_fields n h fs))"

definition stringify :: "heap \<Rightarrow> hval \<Rightarrow> json option" where
  "stringify h v = read (length h) h v"

text \<open>\<^verbatim>\<open>JSON.parse\<close> of a tree: every object and every array of the tree is a new object.\<close>

fun alloc :: "json \<Rightarrow> heap \<Rightarrow> hval \<times> heap"
  and alloc_list :: "json list \<Rightarrow> heap \<Rightarrow> hval list \<times> heap"
  and alloc_fields :: "(string \<times> json) list \<Rightarrow> heap \<Rightarrow> (string \<times> hval) list \<times> heap" where
  "alloc JNull h = (HNull, h)"
| "alloc (JBool b) h = (HBool b, h)"
| "alloc (JNum x) h = (HNum x, h)"
| "alloc (JStr s) h = (HStr s, h)"
| "alloc (JObj fs) h =
     (case alloc_fields fs h of (fs', h1) \<Rightarrow> (HRef (length h1), h1 @ [HObj fs']))"
| "alloc (JArr es ps) h =
     (case alloc_list es h of (es', h1) \<Rightarrow> (HRef (length h1), h1 @ [HArr es' []]))"
| "alloc_list [] h = ([], h)"
| "alloc_list (j # js) h =
     (case alloc j h of (v, h1) \<Rightarrow> case alloc_list js h1 of (vs, h2) \<Rightarrow> (v # vs, h2))"
| "alloc_fields [] h = ([], h)"
| "alloc_fields (kj # fs) h =
     (case alloc (snd kj) h of (v, h1) \<Rightarrow>
      case alloc_fields fs h1 of (fs', h2) \<Rightarrow> ((fst kj, v) # fs', h2))"

text \<open>\<^verbatim>\<open>JSON.parse(JSON.stringify(v))\<close>.\<close>

definition h_json_copy :: "hval \<Rightarrow> hval hm" where
  "h_json_copy v h =
     (case stringify h v of
        None \<Rightarrow> (Inl (TypeError ''Converting circular structure to JSON''), h)
      | Some j \<Rightarrow> (case alloc j h of (v', h') \<Rightarrow> (Inr v', h')))"

subsection \<open>Building statements on the heap\<close>

text \<open>
  The module variables that the builders of statements read. \<^verbatim>\<open>buildStatement\<close> and the
  public \<^verbatim>\<open>sendStatement\<close> assign to none of them.
\<close>

record hmodule =
  hm_actor :: hval
  hm_contextTemplate :: hval
  hm_registration :: "string option"
  hm_sessionId :: "string option"
  hm_activityId :: "string option"

text \<open>\<^verbatim>\<open>if (!o[k]) o[k] = d\<close>, where \<open>d\<close> is an object literal or array literal.\<close>

definition h_ensure :: "hval option \<Rightarrow> string \<Rightarrow> hobj \<Rightarrow> unit hm" where
  "h_ensure v k d =
     h_bind (h_get v k) (\<lambda>x.
       if h_truthy_opt x then h_return ()
       else h_bind (h_new d) (\<lambda>made. h_set v k made))"

text \<open>
  The test for a category and the \<^verbatim>\<open>push\<close> when it is absent (lines 616-625, 631-639),
  each on \<^verbatim>\<open>context.contextActivities.category\<close>.
\<close>

definition h_category :: "hval \<Rightarrow> hval option hm" where
  "h_category context =
     h_bind (h_get (Some context) ''contextActivities'') (\<lambda>ca. h_get ca ''category'')"

definition h_add_category :: "hval \<Rightarrow> string \<Rightarrow> unit hm" where
  "h_add_category context iri =
     h_bind (h_category context) (\<lambda>category.
     h_bind (h_some category iri) (\<lambda>has.
       if has then h_return ()
       else
         h_bind (h_category context) (\<lambda>category'.
         h_bind (h_new (HObj [(''id'', HStr iri), (''objectType'', HStr ''Activity'')])) (\<lambda>entry.
         h_push category' entry))))"

text \<open>The context of \<^verbatim>\<open>buildStatement\<close> (lines 591-640).\<close>

definition h_build_context :: "hmodule \<Rightarrow> hval \<Rightarrow> hval hm" where
  "h_build_context m verb =
     h_bind (h_new (HObj [])) (\<lambda>context0.
     h_bind (if h_truthy (hm_contextTemplate m) then h_json_copy (hm_contextTemplate m)
             else h_return context0) (\<lambda>context.
     h_bind (h_set (Some context) ''registration'' (h_of_str (hm_registration m))) (\<lambda>u1.
     h_bind (h_ensure (Some context) ''extensions'' (HObj [])) (\<lambda>u2.
     h_bind (h_get (Some context) ''extensions'') (\<lambda>extensions.
     h_bind (h_set extensions sessionid_extension (h_of_str (hm_sessionId m))) (\<lambda>u3.
     h_bind (h_ensure (Some context) ''contextActivities'' (HObj [])) (\<lambda>u4.
     h_bind (h_get (Some context) ''contextActivities'') (\<lambda>ca.
     h_bind (h_get ca ''category'') (\<lambda>category.
     h_bind (if h_truthy_opt category then h_return ()
             else
               h_bind (h_get (Some context) ''contextActivities'') (\<lambda>ca'.
               h_bind (h_new (HArr [] [])) (\<lambda>made. h_set ca' ''category'' made))) (\<lambda>u5.
     h_bind (h_add_category context cmi5_category) (\<lambda>u6.
     h_bind (h_get (Some verb) ''id'') (\<lambda>verbId.
     h_bind (if verbId = Some (HStr ''http://adlnet.gov/expapi/verbs/passed'') \<or>
                verbId = Some (HStr ''http://adlnet.gov/expapi/verbs/failed'')
             then h_add_category context moveon_category else h_return ()) (\<lambda>u7.
     h_return context)))))))))))))"

text \<open>
  \<^verbatim>\<open>buildStatement\<close> (lines 578-650) on the heap, with the identifier and the timestamp that
  it draws.
\<close>

definition h_buildStatement ::
  "hmodule \<Rightarrow> string \<Rightarrow> string \<Rightarrow> hval \<Rightarrow> hval \<Rightarrow> hval \<Rightarrow> hval hm" where
  "h_buildStatement m uuid stamp verb result objectOverride =
     h_bind (if h_truthy objectOverride then h_return objectOverride
             else h_new (HObj [(''id'', h_of_str (hm_activityId m)),
                               (''objectType'', HStr ''Activity'')])) (\<lambda>object.
     h_bind (h_new (HObj [(''id'', HStr uuid), (''actor'', hm_actor m), (''verb'', verb),
                          (''object'', object), (''timestamp'', HStr stamp)])) (\<lambda>statement.
     h_bind (h_build_context m verb) (\<lambda>context.
     h_bind (h_set (Some statement) ''context'' context) (\<lambda>u1.
     h_bind (if h_truthy result then h_set (Some statement) ''result'' result
             else h_return ()) (\<lambda>u2.
     h_return statement)))))"

text \<open>
  \<^verbatim>\<open>contextTemplate.contextActivities?.k\<close>: the optional chain gives \<^verbatim>\<open>undefined\<close> when
  \<^verbatim>\<open>contextActivities\<close> is \<^verbatim>\<open>null\<close> or \<^verbatim>\<open>undefined\<close>.
\<close>

definition h_template_activities :: "hmodule \<Rightarrow> string \<Rightarrow> hval option hm" where
  "h_template_activities m k =
     h_bind (h_get (Some (hm_contextTemplate m)) ''contextActivities'') (\<lambda>ca.
       if ca = None \<or> ca = Some HNull then h_return None else h_get ca k)"

text \<open>
  \<^verbatim>\<open>if (contextTemplate.contextActivities?.k) statement.context.contextActivities.k =
  contextTemplate.contextActivities.k\<close> (lines 1133-1138).
\<close>

definition h_take_over :: "hmodule \<Rightarrow> hval \<Rightarrow> string \<Rightarrow> unit hm" where
  "h_take_over m statement k =
     h_bind (h_template_activities m k) (\<lambda>x.
       if h_truthy_opt x then
         h_bind (h_get (Some statement) ''context'') (\<lambda>context.
         h_bind (h_get context ''contextActivities'') (\<lambda>ca.
         h_bind (h_get (Some (hm_contextTemplate m)) ''contextActivities'') (\<lambda>tca.
         h_bind (h_get tca k) (\<lambda>y.
           case y of None \<Rightarrow> h_return () | Some y' \<Rightarrow> h_set ca k y'))))
       else h_return ())"

text \<open>
  The statement that the public \<^verbatim>\<open>sendStatement\<close> builds (lines 1110-1140) on the heap.
\<close>

definition h_allowed_statement ::
  "hmodule \<Rightarrow> string \<Rightarrow> string \<Rightarrow> hval \<Rightarrow> hval \<Rightarrow> hval \<Rightarrow> hval hm" where
  "h_allowed_statement m uuid stamp verb result object =
     h_bind (if h_truthy object then h_return object
             else h_new (HObj [(''id'', h_of_str (hm_activityId m)),
                               (''objectType'', HStr ''Activity'')])) (\<lambda>object'.
     h_bind (h_new (HObj [(sessionid_extension, h_of_str (hm_sessionId m))])) (\<lambda>extensions.
     h_bind (h_new (HObj [(''registration'', h_of_str (hm_registration m)),
                          (''extensions'', extensions)])) (\<lambda>context.
     h_bind (h_new (HObj [(''id'', HStr uuid), (''actor'', hm_actor m), (''verb'', verb),
                          (''object'', object'), (''timestamp'', HStr stamp),
                          (''context'', context)])) (\<lambda>statement.
     h_bind (if h_truthy result then h_set (Some statement) ''result'' result
             else h_return ()) (\<lambda>u1.
     h_bind (if h_truthy (hm_contextTemplate m) then
               h_bind (h_get (Some statement) ''context'') (\<lambda>context'.
               h_bind (h_get context' ''contextActivities'') (\<lambda>ca.
               h_bind (if h_truthy_opt ca then h_return (the ca) else h_new (HObj [])) (\<lambda>ca'.
               h_bind (h_set context' ''contextActivities'' ca') (\<lambda>u2.
               h_bind (h_take_over m statement ''parent'') (\<lambda>u3.
               h_take_over m statement ''grouping'')))))
             else h_return ()) (\<lambda>u4.
     h_return statement))))))"

text \<open>
  A sequence of statement builds: of \<^verbatim>\<open>buildStatement\<close> (\<open>Defined\<close>) and of the public
  \<^verbatim>\<open>sendStatement\<close> (\<open>Allowed\<close>), each with its identifier, timestamp, verb, result and
  object. What a build returns or throws is dropped; the heap stays.
\<close>

datatype build = Defined string string hval hval hval | Allowed string string hval hval hval

fun h_build :: "hmodule \<Rightarrow> heap \<Rightarrow> build \<Rightarrow> heap" where
  "h_build m h (Defined uuid stamp verb result obj) =
     snd (h_buildStatement m uuid stamp verb result obj h)"
| "h_build m h (Allowed uuid stamp verb result obj) =
     snd (h_allowed_statement m uuid stamp verb result obj h)"

definition h_builds :: "hmodule \<Rightarrow> build list \<Rightarrow> heap \<Rightarrow> heap" where
  "h_builds m builds h = foldl (h_build m) h builds"

text \<open>
  For the proofs. The builders reach the objects that they write to through the
  properties \<^verbatim>\<open>context\<close>, \<^verbatim>\<open>extensions\<close>, \<^verbatim>\<open>contextActivities\<close> and \<^verbatim>\<open>category\<close>. A value is
  young from \<open>n\<close> on when it is no reference to an object below address \<open>n\<close>; an object is
  tidy when what it holds under those four names is young; a heap is closed from \<open>n\<close> when its
  objects from address \<open>n\<close> on are tidy. A step is confined to the addresses from \<open>n\<close> on
  when, on a closed heap, it leaves the objects below \<open>n\<close> as they are, removes no object,
  leaves a closed heap, and returns a value with \<open>Q\<close>.
\<close>

fun young :: "nat \<Rightarrow> hval \<Rightarrow> bool" where
  "young n (HRef a) = (n \<le> a)"
| "young n v = True"

fun young_opt :: "nat \<Rightarrow> hval option \<Rightarrow> bool" where
  "young_opt n None = True"
| "young_opt n (Some v) = young n v"

definition walked :: "string set" where
  "walked = {''context'', ''extensions'', ''contextActivities'', ''category''}"

definition tidy :: "nat \<Rightarrow> hobj \<Rightarrow> bool" where
  "tidy n obj = (\<forall>k \<in> walked. young_opt n (map_of (props obj) k))"

definition closed_from :: "nat \<Rightarrow> heap \<Rightarrow> bool" where
  "closed_from n h = (\<forall>a. n \<le> a \<and> a < length h \<longrightarrow> tidy n (h ! a))"

definition confined :: "nat \<Rightarrow> 'a hm \<Rightarrow> ('a \<Rightarrow> bool) \<Rightarrow> bool" where
  "confined n f Q =
     (\<forall>h r h'. closed_from n h \<and> n \<le> length h \<and> f h = (r, h') \<longrightarrow>
        take n h' = take n h \<and> length h \<le> length h' \<and> closed_from n h' \<and>
        (\<forall>x. r = Inr x \<longrightarrow> Q x))"

subsection \<open>Notions used in the statements about the wrapper\<close>

text \<open>An answer with a status from 200 to 299.\<close>

fun is_ok :: "fetch_result \<Rightarrow> bool" where
  "is_ok (Response r) = ok r"
| "is_ok (Rejected e) = False"

text \<open>The request that \<^verbatim>\<open>lrsRequest\<close> puts together (lines 338-358).\<close>

definition lrs_rq :: "cmi5 \<Rightarrow> lrs_path \<Rightarrow> http_method \<Rightarrow> statement option \<Rightarrow> request" where
  "lrs_rq c path method body =
     LrsRequest method (baseUrl (the (endpoint c))) path (authToken c) body"

text \<open>The credential exchange requests in the log of the network.\<close>

fun is_exchange :: "request \<times> fetch_result \<Rightarrow> bool" where
  "is_exchange (ExchangeRequest url, a) = True"
| "is_exchange (LrsRequest m b p t s, a) = False"

definition exchanges :: "world \<Rightarrow> nat" where
  "exchanges w = length (filter is_exchange (requests w))"

text \<open>The launch parameters are complete (\<^verbatim>\<open>hasAllParams\<close>, line 229, on a fresh page).\<close>

definition complete :: "launch \<Rightarrow> bool" where
  "complete l =
     (truthy_str (p_endpoint l) \<and> truthy_str (p_fetch l) \<and>
      (case p_actor l of Actor a \<Rightarrow> truthy a | _ \<Rightarrow> False) \<and>
      truthy_str (p_registration l) \<and> truthy_str (p_activityId l))"


text \<open>
  The session store holds a session that \<^verbatim>\<open>initialize\<close> takes over on the page launched
  with \<open>l\<close>: registration and session id match, and token and endpoint are there
  (lines 145 and 933).
\<close>

definition restorable :: "launch \<Rightarrow> world \<Rightarrow> bool" where
  "restorable l w =
     (case sessionStorage w of
        None \<Rightarrow> False
      | Some d \<Rightarrow>
          registrationMatches l d \<and> sessionMatches l d \<and> truthy_opt (d_authToken d) \<and>
          truthy_str (d_endpoint d))"



text \<open>Two module states with the same connection and identity of the session.\<close>

definition same_session :: "cmi5 \<Rightarrow> cmi5 \<Rightarrow> bool" where
  "same_session c c' =
     (endpoint c' = endpoint c \<and> authToken c' = authToken c \<and>
      registration c' = registration c \<and> sessionId c' = sessionId c)"

text \<open>Two worlds between which only requests to the LRS, clock and random readings lie.\<close>

definition lrs_traffic :: "world \<Rightarrow> world \<Rightarrow> bool" where
  "lrs_traffic w w' =
     (sessionStorage w' = sessionStorage w \<and> network w' = network w \<and>
      prefix (requests w) (requests w') \<and> exchanges w' = exchanges w)"

text \<open>
  The stored session is for another attempt than the page launched with \<open>l\<close>: the
  registration differs, or the fetch URL carries a session id and it differs.
\<close>

definition mismatch :: "launch \<Rightarrow> session_data \<Rightarrow> bool" where
  "mismatch l d =
     (d_registration d \<noteq> p_registration l \<or>
      (truthy_str (currentSessionIdFromUrl l) \<and> d_sessionId d \<noteq> currentSessionIdFromUrl l))"

text \<open>The requests made between two worlds, with their answers.\<close>

definition new_requests :: "world \<Rightarrow> world \<Rightarrow> (request \<times> fetch_result) list" where
  "new_requests w w' = drop (length (requests w)) (requests w')"

text \<open>A \<^verbatim>\<open>PUT\<close> of a statement with verb \<open>v\<close> that the LRS answered with an ok status.\<close>

fun is_delivery :: "verb \<Rightarrow> request \<times> fetch_result \<Rightarrow> bool" where
  "is_delivery v (LrsRequest PUT b (Statements i) tok (Some s), a) =
     (is_ok a \<and> st_verb s = v \<and> i = st_id s)"
| "is_delivery v x = False"

text \<open>
  The last request made between two worlds delivered a statement with verb \<open>v\<close>; no
  request made between two worlds got an ok answer.
\<close>

definition accepted :: "verb \<Rightarrow> world \<Rightarrow> world \<Rightarrow> bool" where
  "accepted v w w' = (new_requests w w' \<noteq> [] \<and> is_delivery v (last (new_requests w w')))"

definition nothing_accepted :: "world \<Rightarrow> world \<Rightarrow> bool" where
  "nothing_accepted w w' = list_all (\<lambda>x. \<not> is_ok (snd x)) (new_requests w w')"


text \<open>
  A sequence of calls of \<^verbatim>\<open>sendPassed\<close> and \<^verbatim>\<open>sendFailed\<close>, each awaited before the next;
  a call that throws leaves the state it had reached.
\<close>

datatype verdict_call = Pass "real option" | Fail "real option"



text \<open>Two module states that differ in the statement log at most.\<close>

definition only_log :: "cmi5 \<Rightarrow> cmi5 \<Rightarrow> bool" where
  "only_log c c' = (\<exists>entries. c' = c\<lparr> statementLog := entries \<rparr>)"

text \<open>
  The entries of \<^verbatim>\<open>context.contextActivities.category\<close> (none when it is not an array), the
  test \<^verbatim>\<open>cat.id === iri\<close> on an entry, and the number of entries that pass it: the category
  markers that a context carries.
\<close>

fun elements :: "json option \<Rightarrow> json list" where
  "elements (Some (JArr es ps)) = es"
| "elements v = []"

definition categories :: "json \<Rightarrow> json list" where
  "categories ctx =
     (case peek ctx ''contextActivities'' of
        None \<Rightarrow> []
      | Some ca \<Rightarrow> elements (peek ca ''category''))"






subsection \<open>Calls that overlap\<close>

text \<open>
  An asynchronous call runs until it awaits the answer to a request that it has made;
  until the answer arrives, other calls can start and run on the same module state. Here
  the internal \<^verbatim>\<open>sendStatement\<close> (lines 654-686) with its \<^verbatim>\<open>lrsRequest\<close> (lines 331-416) is
  cut at \<^verbatim>\<open>await fetch(url, options)\<close> (line 366): a call is settled (it has returned a
  value or thrown an error), or it awaits the answer to the request that it has made.
\<close>

record awaiting =
  aw_statement :: statement
  aw_retry :: nat
  aw_answer :: fetch_result

type_synonym settled = "js_error + string option"

text \<open>\<^verbatim>\<open>statementLog[statementLog.length - 1]\<close> changed by \<open>f\<close>.\<close>

definition set_last :: "(log_entry \<Rightarrow> log_entry) \<Rightarrow> cmi5 \<Rightarrow> cmi5" where
  "set_last f c =
     c\<lparr> statementLog := (statementLog c)[length (statementLog c) - 1 := f (last (statementLog c))] \<rparr>"

text \<open>
  An error thrown by \<^verbatim>\<open>lrsRequest\<close> is caught by \<^verbatim>\<open>sendStatement\<close> (lines 680-684), which
  notes its message in the last entry of the log and throws it again.
\<close>

definition send_thrown :: "js_error \<Rightarrow> cmi5 \<Rightarrow> world \<Rightarrow> (settled + awaiting) \<times> cmi5 \<times> world" where
  "send_thrown e c w = (Inl (Inl e), set_last (\<lambda>x. x\<lparr> le_error := Some (err_message e) \<rparr>) c, w)"

text \<open>
  \<^verbatim>\<open>lrsRequest(path, 'PUT', statement, retryCount)\<close> up to its \<^verbatim>\<open>await fetch\<close> (lines
  331-366): the request is made, and its answer is under way.
\<close>

definition lrsRequest_issue ::
  "statement \<Rightarrow> nat \<Rightarrow> cmi5 \<Rightarrow> world \<Rightarrow> (settled + awaiting) \<times> cmi5 \<times> world" where
  "lrsRequest_issue s retryCount c w0 =
     (if \<not> truthy_str (endpoint c) \<or> \<not> truthy_opt (authToken c) then
        send_thrown (Error ''LRS not configured (missing endpoint or authToken)'') c w0
      else
        (case fetch (LrsRequest PUT (baseUrl (the (endpoint c))) (Statements (st_id s))
                       (authToken c) (Some s)) w0 of
           (a, w) \<Rightarrow> (Inr \<lparr> aw_statement = s, aw_retry = retryCount, aw_answer = a \<rparr>, c, w)))"

text \<open>The internal \<^verbatim>\<open>sendStatement\<close> up to the \<^verbatim>\<open>await fetch\<close> of its request.\<close>

definition sendStatement_begin ::
  "statement \<Rightarrow> cmi5 \<Rightarrow> world \<Rightarrow> (settled + awaiting) \<times> cmi5 \<times> world" where
  "sendStatement_begin s c w0 =
     (if terminated c \<and> verb_id (st_verb s) \<noteq> ''http://adlnet.gov/expapi/verbs/terminated''
      then (Inl (Inr None), c, w0)
      else
        let entry = \<lparr> le_timestamp = st_timestamp s, le_verb = verbName (st_verb s),
                      le_success = None, le_error = None, le_sync = False \<rparr>
        in lrsRequest_issue s 0 (c\<lparr> statementLog := statementLog c @ [entry] \<rparr>) w0)"

text \<open>
  The internal \<^verbatim>\<open>sendStatement\<close> from the arrival of the answer on (lines 368-414 of
  \<^verbatim>\<open>lrsRequest\<close> for a \<^verbatim>\<open>PUT\<close>, then lines 675-684): it returns the statement id, throws,
  or makes the request again and awaits the next answer.
\<close>

definition sendStatement_resume ::
  "awaiting \<Rightarrow> cmi5 \<Rightarrow> world \<Rightarrow> (settled + awaiting) \<times> cmi5 \<times> world" where
  "sendStatement_resume aw c w =
     (case aw_answer aw of
        Rejected e \<Rightarrow>
          if aw_retry aw < MAX_RETRIES \<and> err_name e = ''TypeError''
          then lrsRequest_issue (aw_statement aw) (aw_retry aw + 1) c w
          else send_thrown e c w
      | Response r \<Rightarrow>
          if \<not> ok r then
            if aw_retry aw < MAX_RETRIES \<and> (status r \<ge> 500 \<or> status r = 0)
            then lrsRequest_issue (aw_statement aw) (aw_retry aw + 1) c w
            else send_thrown
                   (Error (''LRS request failed: '' @ show_nat (status r) @ '' '' @
                           statusText r @ '' - '' @ body_text r)) c w
          else (Inl (Inr (Some (st_id (aw_statement aw)))),
                set_last (\<lambda>x. x\<lparr> le_success := Some True \<rparr>) c, w))"

text \<open>
  What \<^verbatim>\<open>sendPassed\<close> and \<^verbatim>\<open>sendFailed\<close> do once \<^verbatim>\<open>await sendStatement(statement)\<close> is
  settled (lines 808-813 and 846-851).
\<close>

definition after_send ::
  "(settled + awaiting) \<times> cmi5 \<times> world \<Rightarrow> (settled + awaiting) \<times> cmi5 \<times> world" where
  "after_send x =
     (case x of
        (Inr aw, c, w) \<Rightarrow> (Inr aw, c, w)
      | (Inl r, c, w) \<Rightarrow>
          if truthy_id r
          then (let c2 = c\<lparr> successSent := True \<rparr> in (Inl r, c2, saveSessionData c2 w))
          else (Inl r, c, w))"

text \<open>\<^verbatim>\<open>sendPassed\<close> and \<^verbatim>\<open>sendFailed\<close> up to the \<^verbatim>\<open>await fetch\<close> of their request.\<close>

definition sendPassed_begin ::
  "real option \<Rightarrow> cmi5 \<Rightarrow> world \<Rightarrow> (settled + awaiting) \<times> cmi5 \<times> world" where
  "sendPassed_begin score c w0 =
     (if successSent c then (Inl (Inr None), c, w0)
      else
        case calculateDuration c w0 of (duration, w1) \<Rightarrow>
        case buildStatement c verb_passed (Some (success_result True duration score)) None w1 of
          (Inl e, w) \<Rightarrow> (Inl (Inl e), c, w)
        | (Inr s, w) \<Rightarrow> after_send (sendStatement_begin s c w))"

definition sendFailed_begin ::
  "real option \<Rightarrow> cmi5 \<Rightarrow> world \<Rightarrow> (settled + awaiting) \<times> cmi5 \<times> world" where
  "sendFailed_begin score c w0 =
     (if successSent c then (Inl (Inr None), c, w0)
      else
        case calculateDuration c w0 of (duration, w1) \<Rightarrow>
        case buildStatement c verb_failed (Some (success_result False duration score)) None w1 of
          (Inl e, w) \<Rightarrow> (Inl (Inl e), c, w)
        | (Inr s, w) \<Rightarrow> after_send (sendStatement_begin s c w))"

text \<open>
  The page with its calls of \<^verbatim>\<open>sendPassed\<close> and \<^verbatim>\<open>sendFailed\<close>, oldest first. A call is
  made (\<open>Invoke\<close>), or the answer to the request of the \<open>k\<close>-th call arrives (\<open>Arrive k\<close>) and
  that call goes on.
\<close>

datatype call_state = Awaiting awaiting | Settled settled

datatype page_event = Invoke verdict_call | Arrive nat

type_synonym page = "cmi5 \<times> world \<times> call_state list"

fun call_state_of :: "settled + awaiting \<Rightarrow> call_state" where
  "call_state_of (Inl r) = Settled r"
| "call_state_of (Inr aw) = Awaiting aw"

fun page_step :: "page \<Rightarrow> page_event \<Rightarrow> page" where
  "page_step (c, w, calls) (Invoke (Pass score)) =
     (case sendPassed_begin score c w of (x, c', w') \<Rightarrow> (c', w', calls @ [call_state_of x]))"
| "page_step (c, w, calls) (Invoke (Fail score)) =
     (case sendFailed_begin score c w of (x, c', w') \<Rightarrow> (c', w', calls @ [call_state_of x]))"
| "page_step (c, w, calls) (Arrive k) =
     (if k < length calls then
        (case calls ! k of
           Settled r \<Rightarrow> (c, w, calls)
         | Awaiting aw \<Rightarrow>
             (case after_send (sendStatement_resume aw c w) of
                (x, c', w') \<Rightarrow> (c', w', calls[k := call_state_of x])))
      else (c, w, calls))"

definition page_run :: "page_event list \<Rightarrow> page \<Rightarrow> page" where
  "page_run events p = foldl page_step p events"



subsection \<open>Concrete trackers and errors\<close>

definition stmt_at :: "nat \<Rightarrow> queued" where
  "stmt_at n =
     \<lparr> q_verb = \<lparr> verb_id = ''http://adlnet.gov/expapi/verbs/experienced'',
                   verb_display = Some ''experienced'' \<rparr>,
       q_object = None, q_result = None, q_timestamp = n \<rparr>"

definition submit_at :: "nat \<Rightarrow> event" where
  "submit_at n = Submit (VerbName ''experienced'') None None n"

definition connected_tracker :: tracker where
  "connected_tracker = initial_tracker\<lparr> cmi5_isConnected := True \<rparr>"

text \<open>Errors as \<^verbatim>\<open>lrsRequest\<close> of the wrapper words them (line 392).\<close>

definition error_401 :: js_error where
  "error_401 = Error ''LRS request failed: 401 Unauthorized - session not found''"

definition error_500 :: js_error where
  "error_500 = Error ''LRS request failed: 500 Internal Server Error - ''"

subsection \<open>A concrete launch, answers of the network and worlds\<close>

definition launch_1 :: launch where
  "launch_1 =
     \<lparr> p_endpoint = Some ''https://lrs.example.org/xapi/'',
       p_fetch = Some ''https://lms.example.org/fetch?session=s-1'',
       p_fetch_session = UrlSession (Some ''s-1''),
       p_actor = Actor (JObj [(''objectType'', JStr ''Agent''), (''name'', JStr ''Learner'')]),
       p_registration = Some ''reg-1'',
       p_activityId = Some ''https://example.org/au/1'' \<rparr>"

definition server_error :: fetch_result where
  "server_error =
     Response \<lparr> status = 500, statusText = ''Internal Server Error'', body_text = [],
                body_json = None \<rparr>"

definition quoted :: "string \<Rightarrow> string" where
  "quoted s = CHR 0x22 # s @ [CHR 0x22]"

definition token_answer :: fetch_result where
  "token_answer =
     Response \<lparr> status = 200, statusText = ''OK'',
                body_text = ''{'' @ quoted ''auth-token'' @ '':'' @ quoted ''abc'' @ ''}'',
                body_json = Some (JObj [(''auth-token'', JStr ''abc'')]) \<rparr>"

definition no_content :: fetch_result where
  "no_content =
     Response \<lparr> status = 204, statusText = ''No Content'', body_text = [], body_json = None \<rparr>"

text \<open>A tab just opened, with the network answering \<open>net\<close>.\<close>

definition new_tab :: "(nat \<Rightarrow> fetch_result) \<Rightarrow> world" where
  "new_tab net =
     \<lparr> sessionStorage = None, network = net, requests = [], random = (\<lambda>n. n),
       random_reads = 0, clock = (\<lambda>n. 1000 + int n), clock_reads = 0 \<rparr>"

text \<open>A session stored by an earlier launch of the same registration, with session id \<open>s-0\<close>.\<close>

definition stored_0 :: session_data where
  "stored_0 =
     \<lparr> d_endpoint = Some ''https://lrs.example.org/xapi/'',
       d_authToken = Some (JStr ''Basic old''),
       d_actor = Some (JObj [(''objectType'', JStr ''Agent''), (''name'', JStr ''Learner'')]),
       d_registration = Some ''reg-1'',
       d_activityId = Some ''https://example.org/au/1'',
       d_sessionId = Some ''s-0'',
       d_launchData = None, d_contextTemplate = None,
       d_launchMode = JStr ''Normal'', d_masteryScore = JNum (3 / 4),
       d_moveOn = JStr ''CompletedOrPassed'', d_returnURL = None,
       d_startTime = Some 1000, d_initialized = True,
       d_completionSent = False, d_successSent = False \<rparr>"

text \<open>A network that answers the first request with a token and every later one with 204.\<close>

definition net_1 :: "nat \<Rightarrow> fetch_result" where
  "net_1 n = (if n = 0 then token_answer else no_content)"


text \<open>The module state of a page that is connected to the LRS.\<close>

definition connected_cmi5 :: cmi5 where
  "connected_cmi5 =
     fresh_cmi5
       \<lparr> initialized := True,
         endpoint := Some ''https://lrs.example.org/xapi/'',
         fetchUrl := Some ''https://lms.example.org/fetch?session=s-1'',
         actor := Some (JObj [(''objectType'', JStr ''Agent''), (''name'', JStr ''Learner'')]),
         registration := Some ''reg-1'',
         activityId := Some ''https://example.org/au/1'',
         authToken := Some (JStr ''Basic abc''),
         sessionId := Some ''s-1'',
         startTime := Some 1000 \<rparr>"

text \<open>A tab with a stored session, whose LRS accepts everything, or fails on everything.\<close>

definition accepting_world :: world where
  "accepting_world = (new_tab (\<lambda>n. no_content))\<lparr> sessionStorage := Some stored_0 \<rparr>"

definition failing_world :: world where
  "failing_world = (new_tab (\<lambda>n. server_error))\<lparr> sessionStorage := Some stored_0 \<rparr>"

text \<open>A tab whose LRS answers the first four requests with 500 and accepts from then on.\<close>

definition recovering_world :: world where
  "recovering_world = new_tab (\<lambda>n. if n < 4 then server_error else no_content)"



section \<open>Properties of the tracker\<close>

lemmas tracker_defs =
  step_def tracker_sendStatement_def processBatch_def processBatch_body_def
  processBatch_resumed_def processBatch_sent_def send_from_def settle_def leave_try_def
  stop_def Let_def

lemmas example_defs =
  run_def submit_at_def stmt_at_def connected_tracker_def initial_tracker_def getVerbId_def
  verbMap_def SEND_TO_LRS_def in_flight_def

lemma error_401_invalidated: "session_invalidated error_401"
  by (simp add: session_invalidated_def error_401_def Error_def errorMsg_def startsWith_def)

lemma error_500_transient: "\<not> session_invalidated error_500"
  by (simp add: session_invalidated_def error_500_def Error_def errorMsg_def startsWith_def)

subsection \<open>What does hold once the session has ended\<close>

text \<open>\<^verbatim>\<open>sessionEnded\<close> is never reset, whatever happens next.\<close>

lemma sessionEnded_step: "sessionEnded s \<Longrightarrow> sessionEnded (step s e)"
  by (auto simp: tracker_defs split: event.splits task.splits outcome.splits option.splits)

lemma sessionEnded_run: "sessionEnded s \<Longrightarrow> sessionEnded (run s es)"
  unfolding run_def by (induction es arbitrary: s) (simp_all add: sessionEnded_step)

text \<open>An empty queue of an ended session stays empty.\<close>

lemma queue_stays_empty_step:
  "sessionEnded s \<Longrightarrow> statementQueue s = [] \<Longrightarrow> statementQueue (step s e) = []"
  by (auto simp: tracker_defs split: event.splits task.splits outcome.splits option.splits)

lemma queue_stays_empty_run:
  "sessionEnded s \<Longrightarrow> statementQueue s = [] \<Longrightarrow> statementQueue (run s es) = []"
  unfolding run_def
  by (induction es arbitrary: s) (simp_all add: sessionEnded_step queue_stays_empty_step)

text \<open>A submission to an ended session changes nothing.\<close>

lemma submit_after_halt: "sessionEnded s \<Longrightarrow> tracker_sendStatement v obj res now s = s"
  by (simp add: tracker_sendStatement_def)

text \<open>
  A delivery failure that reads as a session invalidation ends the session, empties the
  queue and finishes the loop that saw it, without a further call.
\<close>

lemma halt_observed:
  assumes "me < length (tasks s)" "tasks s ! me = Sending batch i" "session_invalidated e"
  shows "sessionEnded (step s (Answer me (Threw e))) \<and>
         statementQueue (step s (Answer me (Threw e))) = [] \<and>
         transport_calls (step s (Answer me (Threw e))) = transport_calls s \<and>
         tasks (step s (Answer me (Threw e))) ! me = Finished"
  using assms by (simp add: tracker_defs)

lemma in_flight_0: "in_flight s = 0 \<longleftrightarrow> (\<forall>t \<in> set (tasks s). \<not> is_sending t)"
  by (simp add: in_flight_def filter_empty_conv)

lemma set_update_Finished:
  "\<forall>t \<in> set ts. \<not> is_sending t \<Longrightarrow> \<forall>t \<in> set (ts[me := Finished]). \<not> is_sending t"
  using set_update_subset_insert [of ts me Finished] by auto

text \<open>
  With the session ended and no delivery loop in flight, no event starts one and no
  statement is handed to the wrapper any more.
\<close>

lemma quiet_step:
  assumes "sessionEnded s" "in_flight s = 0"
  shows "in_flight (step s e) = 0 \<and> transport_calls (step s e) = transport_calls s"
proof (cases e)
  case (Answer me r)
  have "\<not> is_sending (tasks s ! me)" if "me < length (tasks s)"
    using assms(2) that by (simp add: in_flight_0)
  then show ?thesis using assms Answer
    by (auto simp: step_def split: task.splits)
next
  case (Resume me)
  then show ?thesis using assms
    by (auto simp: in_flight_0 step_def processBatch_resumed_def settle_def
        dest: set_update_Finished [rule_format, rotated] split: task.splits)
next
  case Flush
  then show ?thesis using assms
    by (auto simp: in_flight_0 step_def processBatch_def Let_def)
qed (use assms in \<open>auto simp: in_flight_0 step_def tracker_sendStatement_def stop_def\<close>)

lemma quiet_run:
  "sessionEnded s \<Longrightarrow> in_flight s = 0 \<Longrightarrow> transport_calls (run s es) = transport_calls s"
  unfolding run_def
  by (induction es arbitrary: s) (simp_all add: sessionEnded_step quiet_step)

text \<open>A finished task stays finished.\<close>

lemma finished_step:
  "me < length (tasks s) \<Longrightarrow> tasks s ! me = Finished \<Longrightarrow>
   me < length (tasks (step s e)) \<and> tasks (step s e) ! me = Finished"
  by (auto simp: tracker_defs nth_append nth_list_update
      split: event.splits task.splits outcome.splits option.splits)

lemma finished_run:
  "me < length (tasks s) \<Longrightarrow> tasks s ! me = Finished \<Longrightarrow>
   me < length (tasks (run s es)) \<and> tasks (run s es) ! me = Finished"
  unfolding run_def
  by (induction es arbitrary: s) (simp_all add: finished_step)

subsection \<open>C5: one flush in flight\<close>

text \<open>
  C5 says that at most one flush is in flight at any instant: a \<^verbatim>\<open>processBatch\<close> call made
  while another is in progress waits for it. The code waits on \<^verbatim>\<open>batchPromise\<close>, which
  holds the promise of the latest call, not of the call in flight. Here a first call is
  sending statement 1; a second call (the timer, say) finds the queue empty, returns at
  once and leaves its settled promise in \<^verbatim>\<open>batchPromise\<close>; statement 2 is submitted and a
  third call awaits that settled promise, continues, and starts a second delivery loop
  while the first is still waiting for its answer: two loops are in flight.
\<close>

theorem two_delivery_loops_in_flight:
  "in_flight (run connected_tracker [submit_at 1, Flush, Flush, submit_at 2, Flush, Resume 2]) = 2"
  by (simp add: example_defs tracker_defs)

subsection \<open>C2: halt is absorbing\<close>

text \<open>
  C2 says that once \<^verbatim>\<open>processBatch\<close> has seen a delivery failure that reads as a session
  invalidation, \<^verbatim>\<open>sessionEnded\<close> stays true, the queue is empty and stays empty, no
  further transport call is made, and later submissions enqueue nothing. The flag, the
  queue and the submissions behave so (\<open>sessionEnded_run\<close>, \<open>queue_stays_empty_run\<close>,
  \<open>submit_after_halt\<close>), and no call follows when no other loop is in flight
  (\<open>quiet_run\<close>). With the two loops of C5 a call does follow: the first loop is halted by
  a 401 answer while the second, holding statements 2 and 3, is waiting; when its send of
  statement 2 comes back, it hands statement 3 to the wrapper.
\<close>

theorem transport_call_after_halt:
  "let halted = run connected_tracker
         [submit_at 1, Flush, Flush, submit_at 2, submit_at 3, Flush, Resume 2,
          Answer 0 (Threw error_401)];
       later = step halted (Answer 2 Returned)
   in sessionEnded halted \<and> statementQueue halted = [] \<and>
      transport_calls halted = [stmt_at 1, stmt_at 2] \<and>
      transport_calls later = [stmt_at 1, stmt_at 2, stmt_at 3]"
  using error_401_invalidated by (simp add: example_defs tracker_defs)

subsection \<open>C3: a transient failure puts the rest of the batch back\<close>

text \<open>
  C3 as stated, for every flush: when the send at position \<open>i\<close> of the batch fails with
  an error that is not a session invalidation, the failed statement and those after it
  go back to the front of the queue. The code does so only while \<^verbatim>\<open>sessionEnded\<close> is false
  (line 1558). Here \<^verbatim>\<open>stop()\<close> is called while the first send is in flight; the send then
  fails with a 500 answer and nothing is put back.
\<close>

theorem requeue_skipped_when_ended:
  "let s = run connected_tracker [submit_at 1, submit_at 2, Flush, Stop];
       s' = step s (Answer 0 (Threw error_500))
   in tasks s ! 0 = Sending [stmt_at 1, stmt_at 2] 0 \<and> \<not> session_invalidated error_500 \<and>
      statementQueue s' = [] \<and>
      statementQueue s' \<noteq> drop 0 [stmt_at 1, stmt_at 2] @ statementQueue s"
  using error_500_transient by (simp add: example_defs tracker_defs)

text \<open>
  C3, amended: when the send at position \<open>i\<close> (counted from 0) of the batch of a delivery
  loop fails with an error that is not a session invalidation, then, unless the session
  has been marked ended in the meantime, the failed statement and all statements after it
  (\<open>drop i batch\<close>) are put back at the front of the queue in their order, before
  whatever was submitted during the flush; if the session has been marked ended, the
  queue is left as it is. Either way the loop makes no further call and is finished for
  good, so the statements before position \<open>i\<close> are not sent again.
\<close>

theorem transient_failure_requeues:
  assumes "me < length (tasks s)" and "tasks s ! me = Sending batch i"
    and "\<not> session_invalidated e"
  shows "statementQueue (step s (Answer me (Threw e))) =
           (if sessionEnded s then statementQueue s else drop i batch @ statementQueue s) \<and>
         transport_calls (step s (Answer me (Threw e))) = transport_calls s \<and>
         (\<forall>es. tasks (run (step s (Answer me (Threw e))) es) ! me = Finished \<and>
               me < length (tasks (run (step s (Answer me (Threw e))) es)))"
proof -
  let ?s' = "step s (Answer me (Threw e))"
  have s': "?s' = leave_try me (if sessionEnded s then s
              else s\<lparr> statementQueue := drop i batch @ statementQueue s \<rparr>)"
    using assms by (simp add: step_def processBatch_sent_def)
  have "me < length (tasks ?s') \<and> tasks ?s' ! me = Finished"
    using assms(1) by (simp add: s' leave_try_def settle_def)
  then have "\<forall>es. tasks (run ?s' es) ! me = Finished \<and> me < length (tasks (run ?s' es))"
    using finished_run by blast
  moreover have "statementQueue ?s' =
      (if sessionEnded s then statementQueue s else drop i batch @ statementQueue s)"
    by (simp add: s' leave_try_def settle_def)
  moreover have "transport_calls ?s' = transport_calls s"
    by (simp add: s' leave_try_def settle_def)
  ultimately show ?thesis by blast
qed

text \<open>
  The scenario of the specification: five statements, the third fails with a 500 answer
  (a sixth was submitted during the flush). Statements 3, 4, 5 are back at the front, in
  that order, and statements 1 and 2 are not.
\<close>

theorem transient_failure_requeues_witness:
  "let s = run connected_tracker
         [submit_at 1, submit_at 2, submit_at 3, submit_at 4, submit_at 5, Flush,
          Answer 0 Returned, submit_at 6, Answer 0 Returned];
       s' = step s (Answer 0 (Threw error_500))
   in tasks s ! 0 = Sending [stmt_at 1, stmt_at 2, stmt_at 3, stmt_at 4, stmt_at 5] 2 \<and>
      \<not> session_invalidated error_500 \<and> \<not> sessionEnded s \<and>
      transport_calls s = [stmt_at 1, stmt_at 2, stmt_at 3] \<and>
      statementQueue s' = [stmt_at 3, stmt_at 4, stmt_at 5, stmt_at 6] \<and>
      transport_calls s' = [stmt_at 1, stmt_at 2, stmt_at 3] \<and>
      tasks (run s' [Flush]) ! 0 = Finished"
proof -
  define s where "s = run connected_tracker
         [submit_at 1, submit_at 2, submit_at 3, submit_at 4, submit_at 5, Flush,
          Answer 0 Returned, submit_at 6, Answer 0 Returned]"
  have s: "s = \<lparr> statementQueue = [stmt_at 6], batchInProgress = True, batchPromise = Some 0,
       sessionEnded = False,
       tasks = [Sending [stmt_at 1, stmt_at 2, stmt_at 3, stmt_at 4, stmt_at 5] 2],
       cmi5_isConnected = True, cmi5_isTerminated = False,
       transport_calls = [stmt_at 1, stmt_at 2, stmt_at 3] \<rparr>"
    unfolding s_def by (simp add: example_defs tracker_defs)
  have h1: "0 < length (tasks s)"
    and h2: "tasks s ! 0 = Sending [stmt_at 1, stmt_at 2, stmt_at 3, stmt_at 4, stmt_at 5] 2"
    by (simp_all add: s)
  note t = transient_failure_requeues [OF h1 h2 error_500_transient]
  from t have "statementQueue (step s (Answer 0 (Threw error_500))) =
      [stmt_at 3, stmt_at 4, stmt_at 5, stmt_at 6]"
    by (simp add: s)
  moreover from t have "transport_calls (step s (Answer 0 (Threw error_500))) =
      [stmt_at 1, stmt_at 2, stmt_at 3]"
    by (simp add: s)
  moreover from t have "tasks (run (step s (Answer 0 (Threw error_500))) [Flush]) ! 0 = Finished"
    by blast
  ultimately show ?thesis
    using h2 error_500_transient unfolding s_def [symmetric] Let_def by (simp add: s)
qed

subsection \<open>C8: the queue is capped while disconnected\<close>

lemma slice_last_length: "length (slice_last n xs) = min n (length xs)"
  by (auto simp: slice_last_def)

lemma body_disconnected:
  assumes "\<not> cmi5_isConnected s" and "\<not> cmi5_isTerminated s"
  shows "statementQueue (processBatch_body me s) = slice_last 100 (statementQueue s)"
  using assms by (simp add: processBatch_body_def leave_try_def settle_def slice_last_def Let_def)

text \<open>
  C8: while the wrapper reports no connection (and, having none, no termination), a
  \<^verbatim>\<open>processBatch\<close> that runs with a non-empty queue leaves the last 100 statements of the
  queue, the most recent ones, and so at most 100. The call runs its body either at once
  (no batch in progress) or after its wait; both are covered.
\<close>

theorem disconnected_queue_capped:
  assumes "\<not> cmi5_isConnected s" and "\<not> cmi5_isTerminated s"
    and "\<not> sessionEnded s" and "statementQueue s \<noteq> []"
  shows "(\<not> batchInProgress s \<longrightarrow>
            statementQueue (step s Flush) = slice_last 100 (statementQueue s) \<and>
            length (statementQueue (step s Flush)) \<le> 100) \<and>
         (me < length (tasks s) \<and> tasks s ! me = Waiting p \<and> p < length (tasks s) \<and>
          tasks s ! p = Finished \<longrightarrow>
            statementQueue (step s (Resume me)) = slice_last 100 (statementQueue s) \<and>
            length (statementQueue (step s (Resume me))) \<le> 100)"
proof -
  have "statementQueue (step s Flush) = slice_last 100 (statementQueue s)"
    if "\<not> batchInProgress s"
    using that assms
    by (simp add: step_def processBatch_def SEND_TO_LRS_def Let_def body_disconnected)
  moreover have "statementQueue (step s (Resume me)) = slice_last 100 (statementQueue s)"
    if "me < length (tasks s)" "tasks s ! me = Waiting p" "p < length (tasks s)"
      "tasks s ! p = Finished"
    using that assms by (simp add: step_def processBatch_resumed_def body_disconnected)
  ultimately show ?thesis by (simp add: slice_last_length)
qed

text \<open>A queue of 101 statements, stamped 0 to 100: the flush keeps those stamped 1 to 100.\<close>

theorem disconnected_queue_capped_witness:
  "let s = initial_tracker\<lparr> statementQueue := map stmt_at [0..<101] \<rparr>
   in \<not> cmi5_isConnected s \<and> \<not> cmi5_isTerminated s \<and> \<not> sessionEnded s \<and>
      statementQueue s \<noteq> [] \<and> \<not> batchInProgress s \<and> length (statementQueue s) = 101 \<and>
      statementQueue (step s Flush) = map stmt_at [1..<101] \<and>
      length (statementQueue (step s Flush)) = 100"
proof -
  define s where "s = initial_tracker\<lparr> statementQueue := map stmt_at [0..<101] \<rparr>"
  have h: "\<not> cmi5_isConnected s" "\<not> cmi5_isTerminated s" "\<not> sessionEnded s"
    "statementQueue s \<noteq> []" "\<not> batchInProgress s"
    by (simp_all add: s_def initial_tracker_def)
  have q: "statementQueue s = map stmt_at [0..<101]"
    by (simp add: s_def)
  from disconnected_queue_capped [OF h(1-4), of 0 0] h(5)
  have "statementQueue (step s Flush) = slice_last 100 (statementQueue s)"
    by blast
  also have "\<dots> = map stmt_at [1..<101]"
    by (simp add: q slice_last_def drop_map)
  finally have r: "statementQueue (step s Flush) = map stmt_at [1..<101]" .
  show ?thesis
    unfolding s_def [symmetric] Let_def using h r by (simp add: q)
qed

section \<open>Properties of the wrapper\<close>

subsection \<open>What a request to the LRS leaves behind\<close>

lemma fetch_frame:
  "fetch rq w = (r, w') \<Longrightarrow>
     sessionStorage w' = sessionStorage w \<and> network w' = network w \<and>
     requests w' = requests w @ [(rq, r)] \<and> r = network w (length (requests w)) \<and>
     random w' = random w \<and> random_reads w' = random_reads w \<and>
     clock w' = clock w \<and> clock_reads w' = clock_reads w"
  by (auto simp: fetch_def Let_def)

lemma lrsRequest_cases:
  assumes "lrsRequest c path method body n w0 = (r, w')"
  obtains
    (unconfigured) "\<not> isConnected c" "w' = w0" "\<exists>e. r = Inl e"
  | (retry) fr w1 where "isConnected c" "fetch (lrs_rq c path method body) w0 = (fr, w1)" "\<not> is_ok fr"
      "n < MAX_RETRIES" "lrsRequest c path method body (n + 1) w1 = (r, w')"
  | (failed) fr where "isConnected c" "fetch (lrs_rq c path method body) w0 = (fr, w')" "\<not> is_ok fr"
      "(\<exists>e. r = Inl e) \<or> (r = Inr None \<and> method = GET)"
  | (answered) fr x where "isConnected c" "fetch (lrs_rq c path method body) w0 = (fr, w')" "is_ok fr"
      "r = Inr x"
proof (cases "isConnected c")
  case False
  then show ?thesis using assms unconfigured
    by (auto simp: lrsRequest.simps [of c path "method" "body" n] isConnected_def)
next
  case True
  obtain fr w1 where f: "fetch (lrs_rq c path method body) w0 = (fr, w1)"
    by (cases "fetch (lrs_rq c path method body) w0")
  show ?thesis
  proof (cases fr)
    case (Rejected e)
    then show ?thesis using assms True f retry [of fr w1] failed [of fr]
      by (auto simp: lrsRequest.simps [of c path "method" "body" n] isConnected_def lrs_rq_def
          split: if_splits)
  next
    case (Response resp)
    then show ?thesis using assms True f retry [of fr w1] failed [of fr] answered [of fr]
      by (auto simp: lrsRequest.simps [of c path "method" "body" n] isConnected_def lrs_rq_def
          split: if_splits option.splits)
  qed
qed

text \<open>P: a property of log entries that only ok answers have; Q: one that no LRS request has.\<close>

lemma lrsRequest_log:
  assumes "lrsRequest c path method body n w = (r, w')"
    and "\<And>q a. P (q, a) \<Longrightarrow> is_ok a"
    and "\<And>a. \<not> Q (lrs_rq c path method body, a)"
  shows "sessionStorage w' = sessionStorage w \<and> network w' = network w \<and>
     random w' = random w \<and> random_reads w' = random_reads w \<and>
     clock w' = clock w \<and> clock_reads w' = clock_reads w \<and>
     prefix (requests w) (requests w') \<and>
     filter Q (requests w') = filter Q (requests w) \<and>
     length (filter P (requests w')) \<le> length (filter P (requests w)) + 1 \<and>
     ((\<exists>e. r = Inl e) \<longrightarrow> length (filter P (requests w')) = length (filter P (requests w)))"
  using assms(1)
proof (induction "MAX_RETRIES - n" arbitrary: n w)
  case 0
  from "0.prems" show ?case
  proof (cases rule: lrsRequest_cases)
    case (retry fr w1)
    then show ?thesis using 0 by simp
  next
    case (failed fr)
    then show ?thesis using assms(2) [of _ fr] assms(3) by (auto dest!: fetch_frame)
  next
    case (answered fr x)
    then show ?thesis using assms(3) by (auto dest!: fetch_frame)
  qed auto
next
  case (Suc k)
  from Suc.prems show ?case
  proof (cases rule: lrsRequest_cases)
    case (retry fr w1)
    have "k = MAX_RETRIES - (n + 1)" using Suc.hyps(2) by simp
    from Suc.hyps(1) [OF this retry(5)] fetch_frame [OF retry(2)] retry(3) assms(2) [of _ fr] assms(3)
    show ?thesis by (auto dest: append_prefixD)
  next
    case (failed fr)
    then show ?thesis using assms(2) [of _ fr] assms(3) by (auto dest!: fetch_frame)
  next
    case (answered fr x)
    then show ?thesis using assms(3) by (auto dest!: fetch_frame)
  qed auto
qed

lemma lrsRequest_traffic:
  assumes "lrsRequest c path method body n w = (r, w')"
  shows "lrs_traffic w w'"
  using lrsRequest_log [OF assms, of "\<lambda>x. False" is_exchange]
  by (simp add: lrs_traffic_def exchanges_def lrs_rq_def)

lemma lrs_traffic_refl: "lrs_traffic w w"
  by (simp add: lrs_traffic_def)

lemma lrs_traffic_trans: "lrs_traffic w w' \<Longrightarrow> lrs_traffic w' w'' \<Longrightarrow> lrs_traffic w w''"
  by (auto simp: lrs_traffic_def)

lemma lrs_traffic_reads:
  "lrs_traffic w (w\<lparr> random_reads := a \<rparr>)" "lrs_traffic w (w\<lparr> clock_reads := b \<rparr>)"
  by (simp_all add: lrs_traffic_def exchanges_def)

lemma generateUUID_traffic: "generateUUID w = (u, w') \<Longrightarrow> lrs_traffic w w'"
  by (auto simp: generateUUID_def lrs_traffic_reads)

lemma Date_now_traffic: "Date_now w = (t, w') \<Longrightarrow> lrs_traffic w w'"
  by (auto simp: Date_now_def lrs_traffic_reads)

lemma fetchLearnerPreferences_frame:
  "fetchLearnerPreferences c w = (c', w') \<Longrightarrow> same_session c c' \<and> lrs_traffic w w'"
  by (auto simp: fetchLearnerPreferences_def same_session_def
      split: prod.splits sum.splits dest: lrsRequest_traffic)

lemma fetchLaunchData_frame:
  "fetchLaunchData c w = (c', w') \<Longrightarrow> same_session c c' \<and> lrs_traffic w w'"
  by (auto simp: fetchLaunchData_def same_session_def
      split: prod.splits sum.splits option.splits if_splits dest: lrsRequest_traffic)

lemma buildStatement_traffic:
  "buildStatement c v res obj w = (r, w') \<Longrightarrow> lrs_traffic w w'"
  by (auto simp: buildStatement_def split: prod.splits
      dest!: generateUUID_traffic Date_now_traffic intro: lrs_traffic_trans)

lemma sendStatement_frame:
  "sendStatement s c w = (r, c', w') \<Longrightarrow> same_session c c' \<and> lrs_traffic w w'"
  by (auto simp: sendStatement_def same_session_def Let_def lrs_traffic_refl
      split: prod.splits sum.splits if_splits dest: lrsRequest_traffic)

lemma build_and_send_frame:
  "build_and_send v res c w = (r, c', w') \<Longrightarrow> same_session c c' \<and> lrs_traffic w w'"
  by (auto simp: build_and_send_def split: prod.splits sum.splits
      dest!: buildStatement_traffic sendStatement_frame intro: lrs_traffic_trans)
    (simp add: same_session_def)

subsection \<open>Restoring a stored session\<close>










lemma exchanges_saved [simp]: "exchanges (saveSessionData c w) = exchanges w"
  by (simp add: exchanges_def saveSessionData_def)




lemma page_load_fresh:
  assumes "\<not> restorable l w" "complete l"
  obtains c3 w3 where "page_load l w = launch_steps c3 w3"
    "requests w3 = requests w" "network w3 = network w"
    "endpoint c3 = p_endpoint l" "fetchUrl c3 = p_fetch l" "registration c3 = p_registration l"
    "\<not> truthy_str (currentSessionIdFromUrl l) \<or> sessionId c3 = currentSessionIdFromUrl l"
proof -
  obtain has c1 w1 where ld: "loadSessionData l fresh_cmi5 w = (has, c1, w1)"
    by (cases "loadSessionData l fresh_cmi5 w")
  have w1: "requests w1 = requests w" "network w1 = network w"
    using ld by (auto simp: loadSessionData_def clearSessionData_def split: option.splits if_splits)
  have not_taken: "\<not> (has \<and> truthy_opt (authToken c1) \<and> truthy_str (endpoint c1))"
    using ld assms(1)
    by (auto simp: loadSessionData_def restorable_def split: option.splits if_splits)
  obtain t w2 where dn: "Date_now w1 = (t, w2)"
    by (cases "Date_now w1")
  have w2: "requests w2 = requests w" "network w2 = network w"
    using dn w1 by (auto simp: Date_now_def)
  obtain hp c2 where pp: "parseLaunchParameters l (c1\<lparr> startTime := Some t \<rparr>) = (hp, c2)"
    by (cases "parseLaunchParameters l (c1\<lparr> startTime := Some t \<rparr>)")
  have c2: "hp" "endpoint c2 = p_endpoint l" "fetchUrl c2 = p_fetch l"
    "registration c2 = p_registration l"
    using pp assms(2)
    by (auto simp: parseLaunchParameters_def complete_def Let_def split: actor_param.splits)
  obtain c3 w3 where ls: "launch_sessionId c2 l w2 = (c3, w3)"
    by (cases "launch_sessionId c2 l w2")
  have c3: "endpoint c3 = p_endpoint l" "fetchUrl c3 = p_fetch l"
    "registration c3 = p_registration l"
    "\<not> truthy_str (currentSessionIdFromUrl l) \<or> sessionId c3 = currentSessionIdFromUrl l"
    and w3: "requests w3 = requests w" "network w3 = network w"
    using ls c2 w2 assms(2)
    by (auto simp: launch_sessionId_def currentSessionIdFromUrl_def generateUUID_def complete_def
        split: url_session.splits if_splits)
  have ni: "\<not> initialized fresh_cmi5"
    by (simp add: fresh_cmi5_def)
  have pl: "page_load l w = launch_steps c3 w3"
    using not_taken c2(1) ni
    by (auto simp: page_load_def initialize_def ld dn pp ls)
  show ?thesis
    using that [OF pl w3 c3] .
qed


text \<open>What \<^verbatim>\<open>fetchAuthToken\<close> does with a fetch URL at hand, whatever the answer.\<close>

lemma fetchAuthToken_request:
  assumes "truthy_str (fetchUrl c)" "fetchAuthToken c w = (r, c', w')"
  shows "requests w' = requests w @
           [(ExchangeRequest (the (fetchUrl c)), network w (length (requests w)))] \<and>
         network w' = network w \<and>
         (case r of
            Inr t \<Rightarrow> truthy_opt (authToken c') \<and>
                     sessionStorage w' = sessionStorage (saveSessionData c' w)
          | Inl e \<Rightarrow> sessionStorage w' = sessionStorage w)"
proof -
  obtain url where url: "fetchUrl c = Some url" "url \<noteq> []"
    using assms(1) by (cases "fetchUrl c") auto
  define a where "a = network w (length (requests w))"
  define w1 where "w1 = w\<lparr> requests := requests w @ [(ExchangeRequest url, a)] \<rparr>"
  have f: "fetch (ExchangeRequest url) w = (a, w1)"
    by (simp add: fetch_def a_def w1_def Let_def)
  have w1: "requests w1 = requests w @ [(ExchangeRequest url, a)]" "network w1 = network w"
    "sessionStorage w1 = sessionStorage w"
    by (simp_all add: w1_def)
  have sv: "sessionStorage (saveSessionData c' w1) = sessionStorage (saveSessionData c' w)"
    "requests (saveSessionData c' w1) = requests w1" "network (saveSessionData c' w1) = network w1"
    by (simp_all add: saveSessionData_def)
  show ?thesis
  proof (cases a)
    case (Rejected e)
    then show ?thesis using assms(2) url w1
      by (auto simp: fetchAuthToken_def url f a_def [symmetric])
  next
    case (Response resp)
    show ?thesis
    proof (cases "ok resp")
      case False
      then show ?thesis using assms(2) url w1 Response
        by (auto simp: fetchAuthToken_def url f a_def [symmetric])
    next
      case True
      show ?thesis
      proof (cases "body_json resp")
        case None
        then show ?thesis using assms(2) url w1 Response True
          by (auto simp: fetchAuthToken_def url f a_def [symmetric])
      next
        case (Some data)
        show ?thesis
        proof (cases "token_of data")
          case (Inl e)
          then show ?thesis using assms(2) url w1 Response True Some
            by (auto simp: fetchAuthToken_def url f a_def [symmetric])
        next
          case (Inr tok)
          show ?thesis
          proof (cases "truthy_opt tok")
            case False
            then show ?thesis using assms(2) url w1 Response True Some Inr
              by (auto simp: fetchAuthToken_def url f a_def [symmetric])
          next
            case T: True
            then obtain v where v: "tok = Some v" "truthy v"
              by (cases tok) auto
            show ?thesis
            proof (cases v)
              case (JStr t)
              then have "t \<noteq> []" using v by simp
              then show ?thesis using assms(2) url w1 sv Response True Some Inr v JStr
                by (auto simp: fetchAuthToken_def url f a_def [symmetric] Let_def)
            qed (use assms(2) url w1 Response True Some Inr v in
                \<open>auto simp: fetchAuthToken_def url f a_def [symmetric]\<close>)
          qed
        qed
      qed
    qed
  qed
qed

lemma launch_steps_exchange:
  assumes "truthy_str (fetchUrl c)"
  shows "exchanges (snd (snd (launch_steps c w))) = exchanges w + 1 \<and>
         prefix (requests w @ [(ExchangeRequest (the (fetchUrl c)), network w (length (requests w)))])
           (requests (snd (snd (launch_steps c w))))"
proof -
  obtain r c1 w1 where f: "fetchAuthToken c w = (r, c1, w1)"
    by (cases "fetchAuthToken c w")
  note fr = fetchAuthToken_request [OF assms f]
  have e1: "exchanges w1 = exchanges w + 1"
    using fr by (simp add: exchanges_def)
  show ?thesis
  proof (cases r)
    case (Inl e)
    then show ?thesis using fr e1 by (simp add: launch_steps_def f)
  next
    case (Inr t)
    obtain c2 w2 where s2: "fetchLearnerPreferences c1 w1 = (c2, w2)"
      by (cases "fetchLearnerPreferences c1 w1")
    obtain c3 w3 where s3: "fetchLaunchData c2 w2 = (c3, w3)"
      by (cases "fetchLaunchData c2 w2")
    obtain r4 c4 w4 where s4: "sendInitialized c3 w3 = (r4, c4, w4)"
      by (cases "sendInitialized c3 w3")
    have t: "lrs_traffic w1 w4"
      using fetchLearnerPreferences_frame [OF s2] fetchLaunchData_frame [OF s3]
        build_and_send_frame [OF s4 [unfolded sendInitialized_def]]
      by (blast intro: lrs_traffic_trans)
    have "exchanges w4 = exchanges w + 1" "prefix (requests w1) (requests w4)"
      using t e1 by (simp_all add: lrs_traffic_def)
    moreover have "requests (saveSessionData (c4\<lparr> initialized := True \<rparr>) w4) = requests w4"
      by (simp add: saveSessionData_def)
    ultimately show ?thesis using fr Inr
      by (cases r4) (simp_all add: launch_steps_def f s2 s3 s4 Let_def)
  qed
qed



subsection \<open>Facts about the launch\<close>




subsection \<open>C4: a stored session is restored only for the same attempt\<close>

text \<open>
  C4: \<^verbatim>\<open>loadSessionData\<close> restores stored state only if the stored registration equals
  the \<^verbatim>\<open>registration\<close> parameter of the page and, when the fetch URL of the page carries a
  session id, the stored session id equals it. On a mismatch on either axis it clears the
  store and returns \<^verbatim>\<open>false\<close>; \<^verbatim>\<open>initialize\<close> on the freshly loaded page, launched with
  complete parameters, then issues the credential exchange as its first request.
\<close>

theorem stored_session_validated:
  "(fst (loadSessionData l c w) \<longrightarrow>
      (\<exists>d. sessionStorage w = Some d \<and> d_registration d = p_registration l \<and>
           (truthy_str (currentSessionIdFromUrl l) \<longrightarrow>
              d_sessionId d = currentSessionIdFromUrl l))) \<and>
   (sessionStorage w = Some d \<and> mismatch l d \<longrightarrow>
      loadSessionData l c w = (False, c, clearSessionData w) \<and>
      (complete l \<longrightarrow>
         exchanges (snd (snd (page_load l w))) = exchanges w + 1 \<and>
         prefix (requests w @ [(ExchangeRequest (the (p_fetch l)), network w (length (requests w)))])
           (requests (snd (snd (page_load l w))))))"
proof (intro conjI impI)
  assume "fst (loadSessionData l c w)"
  then show "\<exists>d. sessionStorage w = Some d \<and> d_registration d = p_registration l \<and>
           (truthy_str (currentSessionIdFromUrl l) \<longrightarrow> d_sessionId d = currentSessionIdFromUrl l)"
    by (cases "sessionStorage w")
      (auto simp: loadSessionData_def registrationMatches_def sessionMatches_def split: if_splits)
next
  assume a: "sessionStorage w = Some d \<and> mismatch l d"
  then have nm: "\<not> (registrationMatches l d \<and> sessionMatches l d)"
    by (auto simp: mismatch_def registrationMatches_def sessionMatches_def)
  then show "loadSessionData l c w = (False, c, clearSessionData w)"
    using a by (auto simp: loadSessionData_def)
  assume cl: "complete l"
  have nr: "\<not> restorable l w"
    using a nm by (auto simp: restorable_def)
  from page_load_fresh [OF nr cl] obtain c3 w3 where
    pl: "page_load l w = launch_steps c3 w3"
    and w3: "requests w3 = requests w" "network w3 = network w"
    and c3: "fetchUrl c3 = p_fetch l"
    by blast
  have "truthy_str (fetchUrl c3)"
    using cl c3 by (simp add: complete_def)
  from launch_steps_exchange [OF this, of w3]
  show "exchanges (snd (snd (page_load l w))) = exchanges w + 1"
    and "prefix (requests w @ [(ExchangeRequest (the (p_fetch l)), network w (length (requests w)))])
           (requests (snd (snd (page_load l w))))"
    by (simp_all add: pl w3 c3 exchanges_def)
qed

text \<open>
  The store holds the session \<open>s-0\<close> of registration \<open>reg-1\<close>; the page is launched for
  the same registration with session \<open>s-1\<close>. The stored session is discarded and the page
  load makes one exchange request.
\<close>

theorem stored_session_validated_witness:
  "sessionStorage ((new_tab net_1)\<lparr> sessionStorage := Some stored_0 \<rparr>) = Some stored_0 \<and>
   d_registration stored_0 = p_registration launch_1 \<and>
   d_sessionId stored_0 = Some ''s-0'' \<and> currentSessionIdFromUrl launch_1 = Some ''s-1'' \<and>
   mismatch launch_1 stored_0 \<and> complete launch_1 \<and>
   loadSessionData launch_1 fresh_cmi5 ((new_tab net_1)\<lparr> sessionStorage := Some stored_0 \<rparr>) =
     (False, fresh_cmi5, new_tab net_1) \<and>
   exchanges (snd (snd (page_load launch_1 ((new_tab net_1)\<lparr> sessionStorage := Some stored_0 \<rparr>)))) = 1"
proof -
  define w where "w = (new_tab net_1)\<lparr> sessionStorage := Some stored_0 \<rparr>"
  have h1: "sessionStorage w = Some stored_0"
    by (simp add: w_def)
  have s: "d_registration stored_0 = p_registration launch_1" "d_sessionId stored_0 = Some ''s-0''"
    "currentSessionIdFromUrl launch_1 = Some ''s-1''"
    by (simp_all add: stored_0_def launch_1_def currentSessionIdFromUrl_def)
  have h2: "mismatch launch_1 stored_0"
    by (simp add: mismatch_def s)
  have h3: "complete launch_1"
    by (simp add: complete_def launch_1_def)
  have cw: "clearSessionData w = new_tab net_1" "exchanges w = 0"
    by (simp_all add: w_def clearSessionData_def new_tab_def exchanges_def)
  from stored_session_validated [of launch_1 fresh_cmi5 w stored_0] h1 h2 h3
  have "loadSessionData launch_1 fresh_cmi5 w = (False, fresh_cmi5, clearSessionData w)"
    and "exchanges (snd (snd (page_load launch_1 w))) = exchanges w + 1"
    by blast+
  then show ?thesis
    using h1 s h2 h3 unfolding w_def [symmetric] by (simp add: cw)
qed

subsection \<open>What sending a statement leaves behind\<close>

lemma lrsRequest_put:
  assumes "lrsRequest c path PUT body n w = (r, w')"
  shows "\<exists>ext. requests w' = requests w @ ext \<and>
           (\<forall>x \<in> set ext. fst x = lrs_rq c path PUT body) \<and>
           (case r of
              Inr x \<Rightarrow> ext \<noteq> [] \<and> is_ok (snd (last ext))
            | Inl e \<Rightarrow> (\<forall>x \<in> set ext. \<not> is_ok (snd x)))"
  using assms
proof (induction "MAX_RETRIES - n" arbitrary: n w)
  case 0
  from "0.prems" show ?case
  proof (cases rule: lrsRequest_cases)
    case (retry fr w1)
    then show ?thesis using 0 by simp
  next
    case (failed fr)
    then show ?thesis by (auto dest!: fetch_frame)
  next
    case (answered fr x)
    then show ?thesis by (auto dest!: fetch_frame)
  qed auto
next
  case (Suc k)
  from Suc.prems show ?case
  proof (cases rule: lrsRequest_cases)
    case (retry fr w1)
    have "k = MAX_RETRIES - (n + 1)" using Suc.hyps(2) by simp
    from Suc.hyps(1) [OF this retry(5)] obtain ext where
      ext: "requests w' = requests w1 @ ext"
      "\<forall>x \<in> set ext. fst x = lrs_rq c path PUT body"
      "case r of Inr x \<Rightarrow> ext \<noteq> [] \<and> is_ok (snd (last ext))
               | Inl e \<Rightarrow> (\<forall>x \<in> set ext. \<not> is_ok (snd x))"
      by blast
    have w1: "requests w1 = requests w @ [(lrs_rq c path PUT body, fr)]"
      using fetch_frame [OF retry(2)] by simp
    show ?thesis
    proof (intro exI [of _ "(lrs_rq c path PUT body, fr) # ext"] conjI)
      show "requests w' = requests w @ (lrs_rq c path PUT body, fr) # ext"
        by (simp add: ext(1) w1)
      show "\<forall>x \<in> set ((lrs_rq c path PUT body, fr) # ext). fst x = lrs_rq c path PUT body"
        using ext(2) by simp
      show "case r of Inr x \<Rightarrow> (lrs_rq c path PUT body, fr) # ext \<noteq> [] \<and>
                        is_ok (snd (last ((lrs_rq c path PUT body, fr) # ext)))
            | Inl e \<Rightarrow> (\<forall>x \<in> set ((lrs_rq c path PUT body, fr) # ext). \<not> is_ok (snd x))"
        using ext(3) retry(3) by (cases r) auto
    qed
  next
    case (failed fr)
    then show ?thesis by (auto dest!: fetch_frame)
  next
    case (answered fr x)
    then show ?thesis by (auto dest!: fetch_frame)
  qed auto
qed

lemma new_requests_append: "requests w' = requests w @ ext \<Longrightarrow> new_requests w w' = ext"
  by (simp add: new_requests_def)

lemma new_requests_same: "new_requests w w = []"
  by (simp add: new_requests_def)

lemma only_log_refl: "only_log c c"
  unfolding only_log_def by (rule exI [of _ "statementLog c"]) simp

lemma only_log_update: "only_log c (c\<lparr> statementLog := entries \<rparr>)"
  unfolding only_log_def by blast

lemma only_log_fields:
  assumes "only_log c c'"
  shows "terminated c' = terminated c" "successSent c' = successSent c"
    "completionSent c' = completionSent c" "initialized c' = initialized c"
    "contextTemplate c' = contextTemplate c" "same_session c c'"
  using assms by (auto simp: only_log_def same_session_def)

text \<open>The internal \<^verbatim>\<open>sendStatement\<close>: only the statement log changes, and the answer tells.\<close>

lemma sendStatement_outcome:
  assumes "sendStatement s c w = (r, c', w')"
  shows "only_log c c' \<and> sessionStorage w' = sessionStorage w \<and>
         random_reads w' = random_reads w \<and>
         (\<forall>x \<in> set (new_requests w w'). fst x = lrs_rq c (Statements (st_id s)) PUT (Some s)) \<and>
         (case r of
            Inr None \<Rightarrow> w' = w
          | Inr (Some i) \<Rightarrow> i = st_id s \<and> accepted (st_verb s) w w'
          | Inl e \<Rightarrow> nothing_accepted w w')"
proof (cases "terminated c \<and> verb_id (st_verb s) \<noteq> ''http://adlnet.gov/expapi/verbs/terminated''")
  case True
  then show ?thesis using assms by (auto simp: sendStatement_def new_requests_def only_log_refl)
next
  case False
  define entry where "entry = \<lparr> le_timestamp = st_timestamp s, le_verb = verbName (st_verb s),
                      le_success = None, le_error = None, le_sync = False \<rparr>"
  define c1 where "c1 = c\<lparr> statementLog := statementLog c @ [entry] \<rparr>"
  obtain r1 w1 where l: "lrsRequest c1 (Statements (st_id s)) PUT (Some s) 0 w = (r1, w1)"
    by (cases "lrsRequest c1 (Statements (st_id s)) PUT (Some s) 0 w")
  have rq: "lrs_rq c1 (Statements (st_id s)) PUT (Some s) = lrs_rq c (Statements (st_id s)) PUT (Some s)"
    by (simp add: lrs_rq_def c1_def)
  from lrsRequest_put [OF l] obtain ext where
    ext: "requests w1 = requests w @ ext"
    "\<forall>x \<in> set ext. fst x = lrs_rq c (Statements (st_id s)) PUT (Some s)"
    "case r1 of Inr x \<Rightarrow> ext \<noteq> [] \<and> is_ok (snd (last ext))
              | Inl e \<Rightarrow> (\<forall>x \<in> set ext. \<not> is_ok (snd x))"
    unfolding rq by blast
  note nr = new_requests_append [OF ext(1)]
  have fr: "sessionStorage w1 = sessionStorage w" "random_reads w1 = random_reads w"
    using lrsRequest_log [OF l, of "\<lambda>x. False" "\<lambda>x. False"] by simp_all
  show ?thesis
  proof (cases r1)
    case (Inl e)
    then have "r = Inl e" "w' = w1"
      "c' = c\<lparr> statementLog := statementLog c @ [entry\<lparr> le_error := Some (err_message e) \<rparr>] \<rparr>"
      using assms False l by (simp_all add: sendStatement_def Let_def entry_def c1_def)
    then show ?thesis using ext Inl fr
      by (simp add: nr nothing_accepted_def list_all_iff only_log_update)
  next
    case (Inr x)
    then have r: "r = Inr (Some (st_id s))" "w' = w1"
      "c' = c\<lparr> statementLog := statementLog c @ [entry\<lparr> le_success := Some True \<rparr>] \<rparr>"
      using assms False l by (simp_all add: sendStatement_def Let_def entry_def c1_def)
    have "ext \<noteq> []" "is_ok (snd (last ext))" "last ext \<in> set ext"
      using ext(3) Inr by simp_all
    then have "is_delivery (st_verb s) (last ext)"
      using ext(2) by (cases "last ext") (auto simp: lrs_rq_def)
    then show ?thesis using r ext fr \<open>ext \<noteq> []\<close>
      by (simp add: nr accepted_def only_log_update)
  qed
qed

lemma buildStatement_outcome:
  assumes "buildStatement c v res obj w = (r, w')"
  shows "requests w' = requests w \<and> sessionStorage w' = sessionStorage w \<and>
         network w' = network w \<and>
         (case r of Inr s \<Rightarrow> st_verb s = v \<and> st_id s \<noteq> [] | Inl e \<Rightarrow> True)"
  using assms
  by (auto simp: buildStatement_def generateUUID_def Date_now_def and_then_def
      split: sum.splits)

lemma build_and_send_outcome:
  assumes "build_and_send v res c w = (r, c', w')"
  shows "only_log c c' \<and> sessionStorage w' = sessionStorage w \<and>
         (case r of
            Inr None \<Rightarrow> new_requests w w' = []
          | Inr (Some i) \<Rightarrow> i \<noteq> [] \<and> accepted v w w'
          | Inl e \<Rightarrow> nothing_accepted w w')"
proof -
  obtain b w1 where b: "buildStatement c v res None w = (b, w1)"
    by (cases "buildStatement c v res None w")
  note bo = buildStatement_outcome [OF b]
  have nr: "new_requests w w2 = new_requests w1 w2" for w2
    using bo by (simp add: new_requests_def)
  show ?thesis
  proof (cases b)
    case (Inl e)
    then have "r = Inl e" "c' = c" "w' = w1"
      using assms b by (simp_all add: build_and_send_def)
    then show ?thesis using bo
      by (simp add: nothing_accepted_def new_requests_def only_log_refl)
  next
    case (Inr s)
    then have "sendStatement s c w1 = (r, c', w')"
      using assms b by (simp add: build_and_send_def)
    from sendStatement_outcome [OF this] bo Inr show ?thesis
      by (auto simp: accepted_def nothing_accepted_def nr new_requests_same
          split: sum.splits option.splits)
  qed
qed

subsection \<open>C9: termination and the session store\<close>

text \<open>The internal \<^verbatim>\<open>sendStatement\<close> answers \<^verbatim>\<open>null\<close> only after termination.\<close>

lemma sendStatement_null:
  assumes "sendStatement s c w = (Inr None, c', w')"
  shows "terminated c \<and> verb_id (st_verb s) \<noteq> ''http://adlnet.gov/expapi/verbs/terminated''"
proof (rule ccontr)
  assume n: "\<not> ?thesis"
  obtain r1 w1 where "lrsRequest (c\<lparr> statementLog := statementLog c @
      [\<lparr> le_timestamp = st_timestamp s, le_verb = verbName (st_verb s),
         le_success = None, le_error = None, le_sync = False \<rparr>] \<rparr>)
      (Statements (st_id s)) PUT (Some s) 0 w = (r1, w1)"
    by (cases "lrsRequest (c\<lparr> statementLog := statementLog c @
      [\<lparr> le_timestamp = st_timestamp s, le_verb = verbName (st_verb s),
         le_success = None, le_error = None, le_sync = False \<rparr>] \<rparr>)
      (Statements (st_id s)) PUT (Some s) 0 w")
  then show False using assms n
    by (cases r1) (auto simp: sendStatement_def Let_def)
qed

lemma build_and_send_null:
  assumes "build_and_send v res c w = (Inr None, c', w')"
  shows "terminated c \<and> verb_id v \<noteq> ''http://adlnet.gov/expapi/verbs/terminated''"
proof -
  obtain b w1 where b: "buildStatement c v res None w = (b, w1)"
    by (cases "buildStatement c v res None w")
  show ?thesis
  proof (cases b)
    case (Inl e)
    then show ?thesis using assms b by (simp add: build_and_send_def)
  next
    case (Inr s)
    then have "sendStatement s c w1 = (Inr None, c', w')"
      using assms b by (simp add: build_and_send_def)
    from sendStatement_null [OF this] buildStatement_outcome [OF b] Inr
    show ?thesis by simp
  qed
qed

lemma calculateDuration_frame:
  assumes "calculateDuration c w = (d, w')"
  shows "requests w' = requests w \<and> sessionStorage w' = sessionStorage w \<and>
         network w' = network w"
proof (cases "startTime c")
  case None
  then show ?thesis using assms by (simp add: calculateDuration_def)
next
  case (Some t0)
  show ?thesis
  proof (cases "t0 = 0")
    case True
    then show ?thesis using assms Some by (simp add: calculateDuration_def)
  next
    case False
    then have "w' = w\<lparr> clock_reads := clock_reads w + 1 \<rparr>"
      using assms Some by (simp add: calculateDuration_def Date_now_def Let_def)
    then show ?thesis by simp
  qed
qed

lemma accepted_shift:
  "requests w1 = requests w \<Longrightarrow> requests w'' = requests w' \<Longrightarrow>
   accepted v w w'' = accepted v w1 w'"
  by (simp add: accepted_def new_requests_def)

lemma nothing_accepted_shift:
  "requests w1 = requests w \<Longrightarrow> requests w'' = requests w' \<Longrightarrow>
   nothing_accepted w w'' = nothing_accepted w1 w'"
  by (simp add: nothing_accepted_def new_requests_def)

lemma sendTerminated_outcome:
  assumes "sendTerminated c w = (r, c', w')"
  shows "(terminated c \<longrightarrow> r = Inr None \<and> c' = c \<and> w' = w) \<and>
         (\<not> terminated c \<longrightarrow>
            (case r of
               Inr i \<Rightarrow> i \<noteq> None \<and> terminated c' \<and> sessionStorage w' = None \<and>
                         accepted verb_terminated w w'
             | Inl e \<Rightarrow> \<not> terminated c' \<and> sessionStorage w' = sessionStorage w \<and>
                         nothing_accepted w w'))"
proof (cases "terminated c")
  case True
  then show ?thesis using assms by (simp add: sendTerminated_def)
next
  case False
  obtain d w1 where d: "calculateDuration c w = (d, w1)"
    by (cases "calculateDuration c w")
  obtain r2 c2 w2 where b: "build_and_send verb_terminated (Some (JObj [(''duration'', JStr d)])) c w1
      = (r2, c2, w2)"
    by (cases "build_and_send verb_terminated (Some (JObj [(''duration'', JStr d)])) c w1") auto
  note df = calculateDuration_frame [OF d]
  note bo = build_and_send_outcome [OF b]
  have t2: "terminated c2 = terminated c"
    using bo by (simp add: only_log_fields)
  show ?thesis
  proof (cases r2)
    case (Inl e)
    then have "r = Inl e" "c' = c2" "w' = w2"
      using assms False d b by (simp_all add: sendTerminated_def)
    then show ?thesis using False bo Inl df t2
      by (simp add: nothing_accepted_shift [of w1 w w2 w2])
  next
    case (Inr i)
    then have r: "r = Inr i" "c' = c2\<lparr> terminated := True \<rparr>" "w' = clearSessionData w2"
      using assms False d b by (simp_all add: sendTerminated_def)
    have "i \<noteq> None"
    proof
      assume "i = None"
      then have "build_and_send verb_terminated (Some (JObj [(''duration'', JStr d)])) c w1
          = (Inr None, c2, w2)"
        using b Inr by simp
      from build_and_send_null [OF this] False show False by simp
    qed
    then obtain j where j: "i = Some j" by auto
    have "accepted verb_terminated w1 w2"
      using bo Inr j by simp
    then have "accepted verb_terminated w w'"
      using df accepted_shift [of w1 w "clearSessionData w2" w2 verb_terminated]
      by (simp add: r clearSessionData_def)
    then show ?thesis using False r j
      by (simp add: clearSessionData_def)
  qed
qed


text \<open>
  C9: \<^verbatim>\<open>sendTerminated\<close> changes the termination state and the session store together or
  not at all. Called when not yet terminated, it either returns the id of the statement,
  and then the last request, the \<^verbatim>\<open>PUT\<close> of the terminated statement, got an ok answer,
  \<^verbatim>\<open>terminated\<close> is true and the session store is empty; or it throws, and then no request
  got an ok answer, \<^verbatim>\<open>terminated\<close> is still false and the session store is what it was.
  Called when already terminated it returns \<^verbatim>\<open>null\<close> and changes nothing.
\<close>

theorem terminate_atomic:
  "(terminated c \<longrightarrow> sendTerminated c w = (Inr None, c, w)) \<and>
   (\<not> terminated c \<longrightarrow>
      (case sendTerminated c w of
         (Inr i, c', w') \<Rightarrow>
           i \<noteq> None \<and> terminated c' \<and> sessionStorage w' = None \<and>
           accepted verb_terminated w w'
       | (Inl e, c', w') \<Rightarrow>
           \<not> terminated c' \<and> sessionStorage w' = sessionStorage w \<and> nothing_accepted w w'))"
proof -
  obtain r c' w' where s: "sendTerminated c w = (r, c', w')"
    by (cases "sendTerminated c w")
  from sendTerminated_outcome [OF s] show ?thesis
    by (cases r) (simp_all add: s)
qed

subsection \<open>C7: passed, failed and completed are guarded by their flags\<close>













subsection \<open>C9 and C7 on a connected page\<close>

lemmas send_eval_defs =
  connected_cmi5_def accepting_world_def failing_world_def fresh_cmi5_def new_tab_def
  no_content_def server_error_def stored_0_def
  sendTerminated_def sendPassed_def sendFailed_def sendCompleted_def calculateDuration_def
  Date_now_def build_and_send_def buildStatement_def generateUUID_def build_context_def
  and_then_def ensure_prop_def update_prop_def add_category_def sendStatement_def
  lrsRequest.simps fetch_def ok_def baseUrl_def MAX_RETRIES_def saveSessionData_def
  clearSessionData_def truthy_id_def Let_def
  verb_terminated_def verb_passed_def verb_failed_def verb_completed_def
  cmi5_category_def moveon_category_def sessionid_extension_def category_entry_def
  json_of_str_def success_result_def

text \<open>
  A connected page with a stored session. With an LRS that accepts, \<^verbatim>\<open>sendTerminated\<close>
  returns the statement id, \<^verbatim>\<open>terminated\<close> is set and the store is empty; with an LRS that
  answers 500 (four attempts), it throws, \<^verbatim>\<open>terminated\<close> stays false and the store is kept.
\<close>

theorem terminate_atomic_witness:
  "\<not> terminated connected_cmi5 \<and>
   fst (sendTerminated connected_cmi5 accepting_world) = Inr (Some (''uuid-'' @ show_nat 0)) \<and>
   terminated (fst (snd (sendTerminated connected_cmi5 accepting_world))) \<and>
   sessionStorage accepting_world = Some stored_0 \<and>
   sessionStorage (snd (snd (sendTerminated connected_cmi5 accepting_world))) = None \<and>
   isl (fst (sendTerminated connected_cmi5 failing_world)) \<and>
   \<not> terminated (fst (snd (sendTerminated connected_cmi5 failing_world))) \<and>
   sessionStorage (snd (snd (sendTerminated connected_cmi5 failing_world))) = Some stored_0"
proof -
  have n: "\<not> terminated connected_cmi5"
    by (simp add: connected_cmi5_def fresh_cmi5_def)
  have a: "fst (sendTerminated connected_cmi5 accepting_world) = Inr (Some (''uuid-'' @ show_nat 0))"
    by (simp add: send_eval_defs)
  have f: "isl (fst (sendTerminated connected_cmi5 failing_world))"
    by (simp add: send_eval_defs)
  have s: "sessionStorage accepting_world = Some stored_0"
    "sessionStorage failing_world = Some stored_0"
    by (simp_all add: accepting_world_def failing_world_def)
  from terminate_atomic [of connected_cmi5 accepting_world] n a
  have "terminated (fst (snd (sendTerminated connected_cmi5 accepting_world))) \<and>
        sessionStorage (snd (snd (sendTerminated connected_cmi5 accepting_world))) = None"
    by (cases "sendTerminated connected_cmi5 accepting_world") auto
  moreover from terminate_atomic [of connected_cmi5 failing_world] n f
  have "\<not> terminated (fst (snd (sendTerminated connected_cmi5 failing_world))) \<and>
        sessionStorage (snd (snd (sendTerminated connected_cmi5 failing_world))) =
          sessionStorage failing_world"
    by (cases "sendTerminated connected_cmi5 failing_world") (auto simp: isl_def)
  ultimately show ?thesis
    using n a f s by simp
qed


subsection \<open>C7 as stated: calls that overlap, and a send that fails\<close>

lemmas call_eval_defs =
  page_run_def sendPassed_begin_def sendFailed_begin_def after_send_def
  sendStatement_begin_def sendStatement_resume_def lrsRequest_issue_def send_thrown_def
  set_last_def verbName_def recovering_world_def

text \<open>
  A call that is awaited, taken through its answers one by one, does what \<^verbatim>\<open>sendPassed\<close>
  and \<^verbatim>\<open>sendFailed\<close> do: with an LRS that accepts (one answer), and with an LRS that
  answers 500 (four answers).
\<close>

lemma awaited_call_agrees:
  "page_run [Invoke (Pass None), Arrive 0] (connected_cmi5, accepting_world, []) =
     (case sendPassed None connected_cmi5 accepting_world of (r, c, w) \<Rightarrow> (c, w, [Settled r]))"
  "page_run [Invoke (Fail None), Arrive 0, Arrive 0, Arrive 0, Arrive 0]
       (connected_cmi5, failing_world, []) =
     (case sendFailed None connected_cmi5 failing_world of (r, c, w) \<Rightarrow> (c, w, [Settled r]))"
  by (simp_all add: send_eval_defs call_eval_defs)


subsection \<open>C6: the category marker\<close>



























subsection \<open>C1: the credential exchange and the reloads\<close>


















subsection \<open>C1 on concrete launches\<close>






subsection \<open>C6 on concrete context templates\<close>





end
